theory Spec2Isabelle
  imports Complex_Main "HOL-Library.Multiset"
begin

section \<open>Liveness detection pipeline of the face verification component\<close>

text \<open>
  The repository holds two versions of the React component \<^verbatim>\<open>FaceVerification\<close>:
  \<^verbatim>\<open>src/app/components/FaceVerification.tsx\<close> and \<^verbatim>\<open>src/unnamed/part_000\<close>.
  Both are embedded here. Definitions of the first keep the source's names; definitions
  of the second carry the suffix \<open>_p0\<close> where the name is already taken.

  JavaScript numbers are modelled as real numbers: rounding, overflow to Infinity and
  NaN inputs are outside the model. The one operation of the pipeline whose result can
  leave the reals, a quotient with a variable divisor, is modelled as fallible
  (\<open>js_div\<close>). Reference cells (\<^verbatim>\<open>useRef\<close>) and component state (\<^verbatim>\<open>useState\<close>) are
  fields of an explicit state record that every operation takes and returns.
\<close>

subsection \<open>Data delivered by the landmark detector\<close>

record point =
  px :: real
  py :: real

text \<open>The three accessors the component calls on a landmark object:
  \<^verbatim>\<open>getLeftEye()\<close>, \<^verbatim>\<open>getRightEye()\<close> and \<^verbatim>\<open>getNose()\<close>.\<close>

record landmarks =
  leftEye :: "point list"
  rightEye :: "point list"
  nose :: "point list"

record expressions =
  happy :: real
  surprised :: real
  neutral :: real

record detection =
  landmarks :: landmarks
  expressions :: expressions

text \<open>
  What one timer tick meets: the awaited detector call (or one of the drawing calls that
  follow it) throws; the canvas hands out no 2d context; or the detector's result list is
  available together with a context.
\<close>

datatype frame = DetectorError | NoContext | Detections "detection list"

text \<open>
  \<open>TypeError\<close>: a property is read from \<^verbatim>\<open>undefined\<close> (an array index out of range).
  \<open>NotFinite\<close>: a quotient whose divisor is zero; JavaScript does not throw there but
  yields Infinity or NaN, which is no real number. The only such quotient of the
  pipeline is guarded and \<open>NotFinite\<close> never arises (lemma \<open>getEAR_finite\<close>), so where
  a caller handles any error, the error it handles is a thrown \<open>TypeError\<close>.
\<close>

datatype error = TypeError | NotFinite

subsection \<open>Component state\<close>

text \<open>\<^verbatim>\<open>lastPositionsRef\<close>, \<^verbatim>\<open>blinkCountRef\<close>, \<^verbatim>\<open>lastEARRef\<close>, and the two state
  variables \<^verbatim>\<open>livenessScore\<close> and \<^verbatim>\<open>message\<close>.\<close>

record state =
  lastPositions :: "point list"
  blinkCount :: nat
  lastEAR :: "real list"
  livenessScore :: real
  message :: string

text \<open>part_000 has one more state variable, \<^verbatim>\<open>debugInfo = { ear, state, threshold }\<close>.\<close>

record debug_info =
  dbg_ear :: real
  dbg_state :: string
  dbg_threshold :: real

record state_p0 = state +
  debugInfo :: debug_info

definition initial_state :: state where
  "initial_state =
     \<lparr>lastPositions = [], blinkCount = 0, lastEAR = [], livenessScore = 0,
      message = ''Starting face verification...''\<rparr>"

definition initial_state_p0 :: state_p0 where
  "initial_state_p0 =
     \<lparr>lastPositions = [], blinkCount = 0, lastEAR = [], livenessScore = 0,
      message = ''Starting face verification...'',
      debugInfo = \<lparr>dbg_ear = 0, dbg_state = ''open'', dbg_threshold = 0\<rparr>\<rparr>"

subsection \<open>Messages\<close>

definition msg_no_face :: string where
  "msg_no_face = ''No face detected. Please position your face in the center box.''"

definition msg_detection_error :: string where
  "msg_detection_error =
     ''Face detection error. Please ensure good lighting and face the camera.''"

definition msg_move_head :: string where
  "msg_move_head = ''Please move your head slightly''"

definition msg_verified :: string where
  "msg_verified = ''Live face verified! Natural movements detected.''"

definition msg_position :: string where
  "msg_position = ''Position your face in the box and blink naturally''"

text \<open>Decimal rendering of the blink counter inside the template literal.\<close>

function show_nat :: "nat \<Rightarrow> string" where
  "show_nat n =
     (if n < 10 then [''0123456789'' ! n]
      else show_nat (n div 10) @ [''0123456789'' ! (n mod 10)])"
  by pat_completeness auto
termination
  by (relation "measure (\<lambda>n. n)") auto

definition msg_blink :: "nat \<Rightarrow> string" where
  "msg_blink bc = ''Please blink naturally ('' @ show_nat bc @ ''/2 blinks)''"

subsection \<open>Array and number primitives\<close>

text \<open>\<^verbatim>\<open>a.push(v); if (a.length > 10) a.shift();\<close>\<close>

definition push_shift :: "'a list \<Rightarrow> 'a \<Rightarrow> 'a list" where
  "push_shift a v = (let a' = a @ [v] in if length a' > 10 then tl a' else a')"

definition js_div :: "real \<Rightarrow> real \<Rightarrow> error + real" where
  "js_div a b = (if b = 0 then Inl NotFinite else Inr (a / b))"

subsection \<open>Eye aspect ratio\<close>

definition euclideanDistance :: "point \<Rightarrow> point \<Rightarrow> real" where
  "euclideanDistance pt1 pt2 = sqrt ((px pt2 - px pt1) ^ 2 + (py pt2 - py pt1) ^ 2)"

text \<open>
  \<^verbatim>\<open>getEAR\<close> reads \<^verbatim>\<open>eye[0]\<close> to \<^verbatim>\<open>eye[5]\<close> and their coordinates; an array of fewer
  than six points makes one of the reads hit \<^verbatim>\<open>undefined\<close>, and the coordinate access
  throws.
\<close>

definition getEAR :: "point list \<Rightarrow> error + real" where
  "getEAR eye =
     (if length eye < 6 then Inl TypeError
      else
        let v1 = euclideanDistance (eye ! 1) (eye ! 5);
            v2 = euclideanDistance (eye ! 2) (eye ! 4);
            h = euclideanDistance (eye ! 0) (eye ! 3)
        in if h > 0
           then (case js_div (v1 + v2) (2.0 * h) of
                   Inl e \<Rightarrow> Inl e
                 | Inr q \<Rightarrow> Inr (q * 1.5))
           else Inr 0)"

definition calculateEAR :: "point list \<Rightarrow> point list \<Rightarrow> error + real" where
  "calculateEAR l r =
     (case getEAR l of
        Inl e \<Rightarrow> Inl e
      | Inr a \<Rightarrow>
          (case getEAR r of
             Inl e \<Rightarrow> Inl e
           | Inr b \<Rightarrow> Inr ((a + b) / 2.0)))"

text \<open>
  part_000: the same body inside \<^verbatim>\<open>try { ... } catch { return 0 }\<close>. The handler turns
  the thrown \<open>TypeError\<close> into 0; \<open>NotFinite\<close> is never produced by \<open>getEAR\<close>
  (lemma \<open>getEAR_finite\<close>), so the first branch is only ever the handler.
\<close>

definition getEyeAspectRatio :: "point list \<Rightarrow> real" where
  "getEyeAspectRatio eye = (case getEAR eye of Inl e \<Rightarrow> 0 | Inr r \<Rightarrow> r)"

subsection \<open>Rolling baseline\<close>

definition updateEARHistory :: "state \<Rightarrow> real \<Rightarrow> state" where
  "updateEARHistory s currentEAR = s\<lparr>lastEAR := push_shift (lastEAR s) currentEAR\<rparr>"

text \<open>
  \<^verbatim>\<open>[...h].sort((a, b) => b - a).slice(0, 3).reduce((a, b) => a + b, 0) / 3\<close>,
  with \<open>h\<close> the content of \<^verbatim>\<open>lastEARRef.current\<close>. part_000 writes the same expression
  inline, twice.
\<close>

definition calculateBaselineEAR :: "real list \<Rightarrow> real" where
  "calculateBaselineEAR h =
     (let sortedEARs = sort_key (\<lambda>a. - a) h
      in foldl (\<lambda>a b. a + b) 0 (take 3 sortedEARs) / 3)"

subsection \<open>Blink detection (FaceVerification.tsx)\<close>

text \<open>
  Operations that touch the reference cells return the state next to their result, also
  when they throw: a mutation made before the exception stays.
\<close>

definition detectBlink :: "state \<Rightarrow> landmarks \<Rightarrow> (error + nat) \<times> state" where
  "detectBlink s lm =
     (case calculateEAR (leftEye lm) (rightEye lm) of
        Inl e \<Rightarrow> (Inl e, s)
      | Inr currentEAR \<Rightarrow>
          let s' =
                (if length (lastEAR s) \<ge> 3
                 then
                   let prev = lastEAR s ! (length (lastEAR s) - 2);
                       threshold = calculateBaselineEAR (lastEAR s) * 0.65
                   in if prev > threshold \<and> currentEAR < threshold
                      then s\<lparr>blinkCount := blinkCount s + 1\<rparr>
                      else s
                 else s)
          in (Inr (blinkCount s'), s'))"

subsection \<open>Head movement\<close>

text \<open>The \<^verbatim>\<open>for (let i = 1; i < length; i++)\<close> loop, with the running total.\<close>

function movement_loop :: "point list \<Rightarrow> nat \<Rightarrow> real \<Rightarrow> real" where
  "movement_loop ps i totalMovement =
     (if i < length ps
      then
        let prev = ps ! (i - 1);
            curr = ps ! i
        in movement_loop ps (Suc i)
             (totalMovement + (\<bar>px curr - px prev\<bar> + \<bar>py curr - py prev\<bar>))
      else totalMovement)"
  by pat_completeness auto
termination
  by (relation "measure (\<lambda>(ps, i, t). length ps - i)") auto

text \<open>
  The part of \<^verbatim>\<open>detectMovement\<close> after the landmark object is known to be present:
  \<^verbatim>\<open>getNose()[0]\<close> is \<^verbatim>\<open>undefined\<close> for an empty nose array, and reading its \<open>x\<close>
  throws before anything is pushed.
\<close>

definition movement_body ::
  "point list \<Rightarrow> landmarks \<Rightarrow> (error + real) \<times> point list" where
  "movement_body positions lm =
     (case nose lm of
        [] \<Rightarrow> (Inl TypeError, positions)
      | n # _ \<Rightarrow>
          let currentPosition = \<lparr>px = px n, py = py n\<rparr>;
              positions' = push_shift positions currentPosition
          in if length positions' < 2 then (Inr 0, positions')
             else (Inr (movement_loop positions' 1 0 / real (length positions')),
                   positions'))"

definition detectMovement :: "state \<Rightarrow> landmarks \<Rightarrow> (error + real) \<times> state" where
  "detectMovement s lm =
     (case movement_body (lastPositions s) lm of
        (r, positions') \<Rightarrow> (r, s\<lparr>lastPositions := positions'\<rparr>))"

subsection \<open>Liveness score and guidance message\<close>

text \<open>
  The two expressions both versions evaluate after the detectors have run:
  \<^verbatim>\<open>Math.min(blinkCount * 0.3 + movement * 2 + expressionChange * 0.3, 1)\<close> with
  \<^verbatim>\<open>expressionChange = Math.max(happy, surprised, neutral)\<close>, and the nested
  conditional that picks the message.
\<close>

definition expressionChange :: "expressions \<Rightarrow> real" where
  "expressionChange e = max (max (happy e) (surprised e)) (neutral e)"

definition score_of :: "nat \<Rightarrow> real \<Rightarrow> real \<Rightarrow> real" where
  "score_of bc movement ec = min (real bc * 0.3 + movement * 2 + ec * 0.3) 1"

definition guidance :: "real \<Rightarrow> nat \<Rightarrow> real \<Rightarrow> string" where
  "guidance score bc movement =
     (if score > 0.7
      then (if bc < 2 then msg_blink bc
            else if movement < 0.1 then msg_move_head
            else msg_verified)
      else msg_position)"

definition updateLivenessScore ::
  "state \<Rightarrow> detection \<Rightarrow> real \<Rightarrow> real \<Rightarrow> (error + unit) \<times> state" where
  "updateLivenessScore s d currentEAR baselineEAR =
     (case detectBlink s (landmarks d) of
        (Inl e, s1) \<Rightarrow> (Inl e, s1)
      | (Inr bc, s1) \<Rightarrow>
          (case detectMovement s1 (landmarks d) of
             (Inl e, s2) \<Rightarrow> (Inl e, s2)
           | (Inr movement, s2) \<Rightarrow>
               let score = score_of bc movement (expressionChange (expressions d))
               in (Inr (),
                   s2\<lparr>livenessScore := score, message := guidance score bc movement\<rparr>)))"

subsection \<open>The timer callback of FaceVerification.tsx\<close>

text \<open>
  One run of the interval callback installed by \<^verbatim>\<open>handleVideoPlay\<close>. \<^verbatim>\<open>drawEyes\<close>
  only reads points that \<^verbatim>\<open>calculateEAR\<close> has read before it, so it cannot throw here
  and leaves no trace in the state.
\<close>

definition handleVideoPlay :: "state \<Rightarrow> frame \<Rightarrow> state" where
  "handleVideoPlay s f =
     (case f of
        DetectorError \<Rightarrow> s\<lparr>message := msg_detection_error\<rparr>
      | NoContext \<Rightarrow> s
      | Detections resizedDetections \<Rightarrow>
          (case resizedDetections of
             [] \<Rightarrow> s\<lparr>message := msg_no_face\<rparr>
           | d # _ \<Rightarrow>
               (case calculateEAR (leftEye (landmarks d)) (rightEye (landmarks d)) of
                  Inl e \<Rightarrow> s\<lparr>message := msg_detection_error\<rparr>
                | Inr currentEAR \<Rightarrow>
                    let s1 = updateEARHistory s currentEAR;
                        baselineEAR = calculateBaselineEAR (lastEAR s1)
                    in (case updateLivenessScore s1 d currentEAR baselineEAR of
                          (Inl e, s2) \<Rightarrow> s2\<lparr>message := msg_detection_error\<rparr>
                        | (Inr u, s2) \<Rightarrow> s2))))"

definition run :: "state \<Rightarrow> frame list \<Rightarrow> state" where
  "run s fs = foldl handleVideoPlay s fs"

subsection \<open>part_000: detectors\<close>

text \<open>
  \<^verbatim>\<open>detectBlink\<close> of part_000 computes the eye aspect ratio itself, pushes it onto
  \<^verbatim>\<open>lastEARRef\<close>, and only then compares. Nothing inside its \<^verbatim>\<open>try\<close> block can throw
  (\<^verbatim>\<open>getEyeAspectRatio\<close> has its own handler), so the \<^verbatim>\<open>catch\<close> branch is not a
  branch of the model. A missing landmark object returns 0.
\<close>

definition detectBlink_p0 :: "state_p0 \<Rightarrow> landmarks option \<Rightarrow> nat \<times> state_p0" where
  "detectBlink_p0 s lmo =
     (case lmo of
        None \<Rightarrow> (0, s)
      | Some lm \<Rightarrow>
          let leftEAR = getEyeAspectRatio (leftEye lm);
              rightEAR = getEyeAspectRatio (rightEye lm);
              ear = (leftEAR + rightEAR) / 2.0;
              s1 = s\<lparr>lastEAR := push_shift (lastEAR s) ear\<rparr>;
              baselineEAR = calculateBaselineEAR (lastEAR s1);
              threshold = baselineEAR * 0.65;
              s2 =
                (if length (lastEAR s1) \<ge> 3
                 then
                   let prev = lastEAR s1 ! (length (lastEAR s1) - 2);
                       current = ear;
                       sd = s1\<lparr>debugInfo :=
                              \<lparr>dbg_ear = current,
                               dbg_state = (if current < threshold then ''closed'' else ''open''),
                               dbg_threshold = threshold\<rparr>\<rparr>
                   in if prev > threshold \<and> current < threshold
                      then sd\<lparr>blinkCount := blinkCount sd + 1\<rparr>
                      else sd
                 else s1)
          in (blinkCount s2, s2))"

definition detectMovement_p0 ::
  "state_p0 \<Rightarrow> landmarks option \<Rightarrow> (error + real) \<times> state_p0" where
  "detectMovement_p0 s lmo =
     (case lmo of
        None \<Rightarrow> (Inr 0, s)
      | Some lm \<Rightarrow>
          (case movement_body (lastPositions s) lm of
             (r, positions') \<Rightarrow> (r, s\<lparr>lastPositions := positions'\<rparr>)))"

definition detectEyeState :: "real \<Rightarrow> real \<Rightarrow> bool" where
  "detectEyeState currentEAR baselineEAR =
     (let threshold = baselineEAR * 0.75;
          isEyeClosed = currentEAR < threshold
      in isEyeClosed)"

text \<open>
  \<^verbatim>\<open>drawEyes\<close> of part_000 draws on the canvas only, but it reads landmark points that
  may be missing, since here a short eye array has not thrown before: the closed-eye
  branch reads \<^verbatim>\<open>eye[1]\<close>, \<^verbatim>\<open>eye[2]\<close>, \<^verbatim>\<open>eye[0]\<close> and \<^verbatim>\<open>eye[3]\<close>, the open-eye branch
  reads \<^verbatim>\<open>eye[0]\<close>, for the left eye and then for the right one.
\<close>

definition drawEyes_p0 :: "point list \<Rightarrow> point list \<Rightarrow> bool \<Rightarrow> error + unit" where
  "drawEyes_p0 l r isEyeClosed =
     (if isEyeClosed
      then (if length l < 4 \<or> length r < 4 then Inl TypeError else Inr ())
      else (if length l < 1 \<or> length r < 1 then Inl TypeError else Inr ()))"

subsection \<open>part_000: the timer callback\<close>

definition handleVideoPlay_p0 :: "state_p0 \<Rightarrow> frame \<Rightarrow> state_p0" where
  "handleVideoPlay_p0 s f =
     (case f of
        DetectorError \<Rightarrow> s\<lparr>message := msg_detection_error\<rparr>
      | NoContext \<Rightarrow> s
      | Detections resizedDetections \<Rightarrow>
          (case resizedDetections of
             [] \<Rightarrow> s\<lparr>message := msg_no_face\<rparr>
           | d # _ \<Rightarrow>
               let faceLandmarks = landmarks d;
                   leftEAR = getEyeAspectRatio (leftEye faceLandmarks);
                   rightEAR = getEyeAspectRatio (rightEye faceLandmarks);
                   currentEAR = (leftEAR + rightEAR) / 2.0;
                   s1 = s\<lparr>lastEAR := push_shift (lastEAR s) currentEAR\<rparr>;
                   baselineEAR = calculateBaselineEAR (lastEAR s1);
                   isEyeClosed = detectEyeState currentEAR baselineEAR
               in (case drawEyes_p0 (leftEye faceLandmarks) (rightEye faceLandmarks)
                          isEyeClosed of
                     Inl e \<Rightarrow> s1\<lparr>message := msg_detection_error\<rparr>
                   | Inr u \<Rightarrow>
                       (case detectBlink_p0 s1 (Some faceLandmarks) of
                          (bc, s2) \<Rightarrow>
                            (case detectMovement_p0 s2 (Some faceLandmarks) of
                               (Inl e, s3) \<Rightarrow> s3\<lparr>message := msg_detection_error\<rparr>
                             | (Inr movement, s3) \<Rightarrow>
                                 let score = score_of bc movement
                                               (expressionChange (expressions d))
                                 in s3\<lparr>livenessScore := score,
                                       message := guidance score bc movement\<rparr>)))))"

definition run_p0 :: "state_p0 \<Rightarrow> frame list \<Rightarrow> state_p0" where
  "run_p0 s fs = foldl handleVideoPlay_p0 s fs"

subsection \<open>Notions used to state the properties\<close>

text \<open>Uniform scaling of a landmark: both coordinates multiplied by \<open>k\<close>.\<close>

definition scale_point :: "real \<Rightarrow> point \<Rightarrow> point" where
  "scale_point k p = \<lparr>px = k * px p, py = k * py p\<rparr>"

text \<open>Manhattan distance of two positions, \<open>|\<Delta>x| + |\<Delta>y|\<close>.\<close>

definition manhattan :: "point \<Rightarrow> point \<Rightarrow> real" where
  "manhattan a b = \<bar>px b - px a\<bar> + \<bar>py b - py a\<bar>"

text \<open>
  The baseline as the specification words it: sort a copy of the history descending,
  take the first three (or fewer if the history is shorter), return their mean, and 0
  for the empty history. To be compared with \<open>calculateBaselineEAR\<close>.
\<close>

definition baseline_spec :: "real list \<Rightarrow> real" where
  "baseline_spec h =
     (let top = take 3 (sort_key (\<lambda>a. - a) h)
      in if top = [] then 0 else sum_list top / real (length top))"

text \<open>
  A falling-edge crossing, as the specification words it: the history holds at least
  three samples, the second-to-last sample is above \<open>baseline * 0.65\<close> and the current
  eye aspect ratio is below it.
\<close>

definition falling_edge :: "real list \<Rightarrow> real \<Rightarrow> bool" where
  "falling_edge h currentEAR =
     (3 \<le> length h \<and>
      h ! (length h - 2) > calculateBaselineEAR h * 0.65 \<and>
      currentEAR < calculateBaselineEAR h * 0.65)"

text \<open>
  The averaged eye aspect ratio of a landmark object as part_000 computes it, in the
  timer callback and again in its \<^verbatim>\<open>detectBlink\<close>.
\<close>

definition ear_p0 :: "landmarks \<Rightarrow> real" where
  "ear_p0 lm = (getEyeAspectRatio (leftEye lm) + getEyeAspectRatio (rightEye lm)) / 2.0"

text \<open>
  The average jitter of a position history: 0 below two positions, otherwise the sum of
  the Manhattan distances of consecutive positions divided by the number of positions.
\<close>

definition average_movement :: "point list \<Rightarrow> real" where
  "average_movement ps =
     (if length ps < 2 then 0
      else (\<Sum>k = 1..<length ps. manhattan (ps ! (k - 1)) (ps ! k)) / real (length ps))"

text \<open>
  A frame counts as a closed-eye frame when its sample, the last entry of the history,
  is below the blink threshold \<open>baseline * 0.65\<close> of that history.
\<close>

definition closed_frame :: "real list \<Rightarrow> bool" where
  "closed_frame h = (last h < calculateBaselineEAR h * 0.65)"

subsection \<open>Sample inputs\<close>

text \<open>
  An open eye (eye aspect ratio 1.5), a fully closed eye (eye aspect ratio 0), and a
  detection whose two eyes are the given landmark set.
\<close>

definition open_eye :: "point list" where
  "open_eye = [\<lparr>px = 0, py = 0\<rparr>, \<lparr>px = 0.5, py = 1\<rparr>, \<lparr>px = 1.5, py = 1\<rparr>,
               \<lparr>px = 2, py = 0\<rparr>, \<lparr>px = 1.5, py = -1\<rparr>, \<lparr>px = 0.5, py = -1\<rparr>]"

definition closed_eye :: "point list" where
  "closed_eye = [\<lparr>px = 0, py = 0\<rparr>, \<lparr>px = 0.5, py = 0\<rparr>, \<lparr>px = 1.5, py = 0\<rparr>,
                 \<lparr>px = 2, py = 0\<rparr>, \<lparr>px = 1.5, py = 0\<rparr>, \<lparr>px = 0.5, py = 0\<rparr>]"

definition face :: "point list \<Rightarrow> detection" where
  "face eye =
     \<lparr>landmarks = \<lparr>leftEye = eye, rightEye = eye, nose = [\<lparr>px = 1, py = -2\<rparr>]\<rparr>,
      expressions = \<lparr>happy = 0.1, surprised = 0.1, neutral = 0.8\<rparr>\<rparr>"

text \<open>
  An eye whose aspect ratio is \<open>e\<close> (for \<open>e \<ge> 0\<close>): corners two units apart, lids
  \<open>4e/3\<close> apart. A detection with the given eyes, nose point and expressions, and the
  frames built from them.
\<close>

definition eye_of_ear :: "real \<Rightarrow> point list" where
  "eye_of_ear e =
     [\<lparr>px = 0, py = 0\<rparr>, \<lparr>px = 0.5, py = e * 2 / 3\<rparr>, \<lparr>px = 1.5, py = e * 2 / 3\<rparr>,
      \<lparr>px = 2, py = 0\<rparr>, \<lparr>px = 1.5, py = - (e * 2 / 3)\<rparr>, \<lparr>px = 0.5, py = - (e * 2 / 3)\<rparr>]"

definition face_at :: "point list \<Rightarrow> point \<Rightarrow> expressions \<Rightarrow> detection" where
  "face_at eye np ex =
     \<lparr>landmarks = \<lparr>leftEye = eye, rightEye = eye, nose = [np]\<rparr>, expressions = ex\<rparr>"

definition frame_ear :: "real \<Rightarrow> frame" where
  "frame_ear e = Detections [face (eye_of_ear e)]"

definition sample_frame :: "real \<Rightarrow> point \<Rightarrow> expressions \<Rightarrow> frame" where
  "sample_frame e np ex = Detections [face_at (eye_of_ear e) np ex]"

text \<open>
  Thirteen frames: three with open eyes (eye aspect ratio 0.45), nine with the eyes
  closed (0.15), and one with the eyes closed further (0.05). The eyes never reopen.
\<close>

definition sustained_closure :: "frame list" where
  "sustained_closure =
     [frame_ear 0.45, frame_ear 0.45, frame_ear 0.45,
      frame_ear 0.15, frame_ear 0.15, frame_ear 0.15, frame_ear 0.15, frame_ear 0.15,
      frame_ear 0.15, frame_ear 0.15, frame_ear 0.15, frame_ear 0.15,
      frame_ear 0.05]"

text \<open>
  A session of five frames with two blinks (eye aspect ratios 1.5, 1.5, 0, 1.5, 0), a
  nose at rest for four frames that then moves by 0.75, and a largest expression
  probability of 0.5 on the last frame: the first four frames, and the last detection.
\<close>

definition session_start :: "frame list" where
  "session_start =
     [sample_frame 1.5 \<lparr>px = 0, py = 0\<rparr> \<lparr>happy = 0.1, surprised = 0.1, neutral = 0.8\<rparr>,
      sample_frame 1.5 \<lparr>px = 0, py = 0\<rparr> \<lparr>happy = 0.1, surprised = 0.1, neutral = 0.8\<rparr>,
      sample_frame 0 \<lparr>px = 0, py = 0\<rparr> \<lparr>happy = 0.1, surprised = 0.1, neutral = 0.8\<rparr>,
      sample_frame 1.5 \<lparr>px = 0, py = 0\<rparr> \<lparr>happy = 0.1, surprised = 0.1, neutral = 0.8\<rparr>]"

definition final_detection :: detection where
  "final_detection =
     face_at (eye_of_ear 0) \<lparr>px = 0.75, py = 0\<rparr>
       \<lparr>happy = 0.5, surprised = 0.2, neutral = 0.3\<rparr>"

section \<open>Properties\<close>

subsection \<open>Eye aspect ratio\<close>

lemma getEAR_finite: "getEAR eye \<noteq> Inl NotFinite"
  by (simp add: getEAR_def js_div_def Let_def)

lemma euclideanDistance_same:
  "px a = px b \<Longrightarrow> py a = py b \<Longrightarrow> euclideanDistance a b = 0"
  by (simp add: euclideanDistance_def)

lemma euclideanDistance_scale:
  "euclideanDistance (scale_point k a) (scale_point k b) = \<bar>k\<bar> * euclideanDistance a b"
proof -
  have "(k * px b - k * px a) ^ 2 + (k * py b - k * py a) ^ 2
        = k ^ 2 * ((px b - px a) ^ 2 + (py b - py a) ^ 2)"
    by (simp add: algebra_simps power2_eq_square)
  then show ?thesis
    by (simp add: euclideanDistance_def scale_point_def real_sqrt_mult)
qed

text \<open>
  C6: when the two horizontal corners \<open>eye[0]\<close> and \<open>eye[3]\<close> coincide, the horizontal
  distance is 0, the guard \<open>h > 0\<close> fails and the eye aspect ratio is exactly 0. The
  result is the number 0 (\<open>Inr 0\<close>), not the outcome \<open>NotFinite\<close> of a quotient by
  zero: the division is not performed. The same holds for \<open>getEyeAspectRatio\<close> of
  part_000.
\<close>

theorem getEAR_degenerate:
  "6 \<le> length eye \<Longrightarrow> px (eye ! 0) = px (eye ! 3) \<Longrightarrow> py (eye ! 0) = py (eye ! 3) \<Longrightarrow>
   getEAR eye = Inr 0 \<and> getEyeAspectRatio eye = 0"
  by (simp add: getEAR_def getEyeAspectRatio_def euclideanDistance_same Let_def)

theorem getEAR_degenerate_witness:
  "getEAR [\<lparr>px = 5, py = 7\<rparr>, \<lparr>px = 6, py = 8\<rparr>, \<lparr>px = 7, py = 8\<rparr>,
           \<lparr>px = 5, py = 7\<rparr>, \<lparr>px = 7, py = 6\<rparr>, \<lparr>px = 6, py = 6\<rparr>] = Inr 0 \<and>
   getEyeAspectRatio [\<lparr>px = 5, py = 7\<rparr>, \<lparr>px = 6, py = 8\<rparr>, \<lparr>px = 7, py = 8\<rparr>,
           \<lparr>px = 5, py = 7\<rparr>, \<lparr>px = 7, py = 6\<rparr>, \<lparr>px = 6, py = 6\<rparr>] = 0"
  using getEAR_degenerate
    [of "[\<lparr>px = 5, py = 7\<rparr>, \<lparr>px = 6, py = 8\<rparr>, \<lparr>px = 7, py = 8\<rparr>,
          \<lparr>px = 5, py = 7\<rparr>, \<lparr>px = 7, py = 6\<rparr>, \<lparr>px = 6, py = 6\<rparr>]"]
  by simp

text \<open>
  Over exact real arithmetic, multiplying every coordinate by a positive factor leaves
  the eye aspect ratio unchanged: the three distances all scale by the factor. The
  component computes in IEEE double precision, where each distance is rounded on its
  own; this lemma says nothing about those roundings.
\<close>

lemma getEAR_scaled:
  assumes k: "0 < k"
  shows "getEAR (map (scale_point k) eye) = getEAR eye"
proof (cases "length eye < 6")
  case True
  then show ?thesis by (simp add: getEAR_def)
next
  case False
  define v1 where "v1 = euclideanDistance (eye ! 1) (eye ! 5)"
  define v2 where "v2 = euclideanDistance (eye ! 2) (eye ! 4)"
  define h where "h = euclideanDistance (eye ! 0) (eye ! 3)"
  have nth: "map (scale_point k) eye ! i = scale_point k (eye ! i)" if "i < 6" for i
    using that False by simp
  have d1: "euclideanDistance (map (scale_point k) eye ! 1) (map (scale_point k) eye ! 5)
            = k * v1"
    and d2: "euclideanDistance (map (scale_point k) eye ! 2) (map (scale_point k) eye ! 4)
            = k * v2"
    and d3: "euclideanDistance (map (scale_point k) eye ! 0) (map (scale_point k) eye ! 3)
            = k * h"
    using k by (simp_all add: nth euclideanDistance_scale v1_def v2_def h_def)
  have pos: "0 < k * h \<longleftrightarrow> 0 < h"
    using k by (simp add: zero_less_mult_iff)
  have "(k * v1 + k * v2) / (2 * (k * h)) = (k * (v1 + v2)) / (k * (2 * h))"
    by (simp add: algebra_simps)
  also have "\<dots> = (v1 + v2) / (2 * h)"
    using k by simp
  finally have q: "(k * v1 + k * v2) / (2 * (k * h)) = (v1 + v2) / (2 * h)" .
  have l: "getEAR (map (scale_point k) eye) =
        (if 0 < k * h
         then (case js_div (k * v1 + k * v2) (2 * (k * h)) of
                 Inl e \<Rightarrow> Inl e | Inr q \<Rightarrow> Inr (q * 1.5))
         else Inr 0)"
    using False unfolding getEAR_def Let_def d1 d2 d3 by simp
  have r: "getEAR eye =
        (if 0 < h
         then (case js_div (v1 + v2) (2 * h) of Inl e \<Rightarrow> Inl e | Inr q \<Rightarrow> Inr (q * 1.5))
         else Inr 0)"
    using False unfolding getEAR_def Let_def v1_def v2_def h_def by simp
  show ?thesis
    unfolding l r pos using k by (simp add: js_div_def q)
qed

lemma euclideanDistance_vertical:
  "px a = px b \<Longrightarrow> euclideanDistance a b = \<bar>py b - py a\<bar>"
  by (simp add: euclideanDistance_def)

lemma getEAR_eye_of_ear: "0 \<le> e \<Longrightarrow> getEAR (eye_of_ear e) = Inr e"
  by (simp add: getEAR_def eye_of_ear_def euclideanDistance_vertical)
     (simp add: euclideanDistance_def js_div_def)

lemma calculateEAR_eye_of_ear:
  "0 \<le> e \<Longrightarrow> calculateEAR (eye_of_ear e) (eye_of_ear e) = Inr e"
  by (simp add: calculateEAR_def getEAR_eye_of_ear)

lemma calculateEAR_lengths:
  assumes "calculateEAR l r = Inr e"
  shows "6 \<le> length l \<and> 6 \<le> length r"
proof -
  have "\<not> length l < 6"
  proof
    assume "length l < 6"
    then have "getEAR l = Inl TypeError" by (simp add: getEAR_def)
    with assms show False by (simp add: calculateEAR_def)
  qed
  moreover have "\<not> length r < 6"
  proof
    assume "length r < 6"
    then have "getEAR r = Inl TypeError" by (simp add: getEAR_def)
    with assms show False by (simp add: calculateEAR_def split: sum.splits)
  qed
  ultimately show ?thesis by simp
qed

lemma point_eta: "\<lparr>px = px p, py = py p\<rparr> = (p :: point)"
  by (cases p) simp

lemma getEAR_open_eye: "getEAR open_eye = Inr 1.5"
  by (simp add: getEAR_def open_eye_def euclideanDistance_def js_div_def)

lemma getEAR_closed_eye: "getEAR closed_eye = Inr 0"
  by (simp add: getEAR_def closed_eye_def euclideanDistance_def js_div_def)

lemma calculateEAR_open: "calculateEAR open_eye open_eye = Inr 1.5"
  by (simp add: calculateEAR_def getEAR_open_eye)

lemma calculateEAR_closed: "calculateEAR closed_eye closed_eye = Inr 0"
  by (simp add: calculateEAR_def getEAR_closed_eye)

lemma ear_p0_open: "ear_p0 (landmarks (face open_eye)) = 1.5"
  by (simp add: ear_p0_def face_def getEyeAspectRatio_def getEAR_open_eye)

lemma ear_p0_closed: "ear_p0 (landmarks (face closed_eye)) = 0"
  by (simp add: ear_p0_def face_def getEyeAspectRatio_def getEAR_closed_eye)

lemma landmarks_face [simp]:
  "leftEye (landmarks (face eye)) = eye" "rightEye (landmarks (face eye)) = eye"
  by (simp_all add: face_def)

subsection \<open>Rolling baseline\<close>

lemma foldl_plus_sum_list: "foldl (\<lambda>a b. a + b) (acc :: real) xs = acc + sum_list xs"
  by (induction xs arbitrary: acc) simp_all

lemma calculateBaselineEAR_sum:
  "calculateBaselineEAR h = sum_list (take 3 (sort_key (\<lambda>a. - a) h)) / 3"
  by (simp add: calculateBaselineEAR_def foldl_plus_sum_list)

lemma sorted_desc_split:
  fixes h :: "real list"
  assumes "a \<in> set (take n (sort_key (\<lambda>a. - a) h))"
    and "b \<in> set (drop n (sort_key (\<lambda>a. - a) h))"
  shows "b \<le> a"
proof -
  let ?xs = "sort_key (\<lambda>a. - a) h"
  have "sorted (map (\<lambda>a. - a) (take n ?xs @ drop n ?xs))"
    by simp
  then have "\<forall>x\<in>set (take n ?xs). \<forall>y\<in>set (drop n ?xs). - x \<le> - y"
    unfolding map_append sorted_append by auto
  with assms show ?thesis by auto
qed

text \<open>
  What the component computes as baseline: the sum of the at most three largest values
  of the history, divided by the constant 3. The values summed are a sub-multiset \<open>top\<close>
  of the history of size \<open>min 3 (length h)\<close>, each at least as large as every value left
  out. From three samples on this is the mean of the three largest values, as the
  specification has it, and it is 0 for the empty history.
\<close>

lemma calculateBaselineEAR_top3:
  "(\<exists>top rest. mset h = mset top + mset rest \<and> length top = min 3 (length h) \<and>
      (\<forall>a\<in>set top. \<forall>b\<in>set rest. b \<le> a) \<and>
      calculateBaselineEAR h = sum_list top / 3) \<and>
   (3 \<le> length h \<longrightarrow> calculateBaselineEAR h = baseline_spec h) \<and>
   (h = [] \<longrightarrow> calculateBaselineEAR h = 0)"
proof -
  let ?xs = "sort_key (\<lambda>a. - a) h"
  have m: "mset h = mset (take 3 ?xs) + mset (drop 3 ?xs)"
    by (simp flip: mset_append)
  have l: "length (take 3 ?xs) = min 3 (length h)"
    by simp
  have o: "\<forall>a\<in>set (take 3 ?xs). \<forall>b\<in>set (drop 3 ?xs). b \<le> a"
    using sorted_desc_split by blast
  have 1: "\<exists>top rest. mset h = mset top + mset rest \<and> length top = min 3 (length h) \<and>
      (\<forall>a\<in>set top. \<forall>b\<in>set rest. b \<le> a) \<and>
      calculateBaselineEAR h = sum_list top / 3"
    by (intro exI [of _ "take 3 ?xs"] exI [of _ "drop 3 ?xs"] conjI)
       (rule m, rule l, rule o, rule calculateBaselineEAR_sum)
  have 2: "3 \<le> length h \<longrightarrow> calculateBaselineEAR h = baseline_spec h"
  proof
    assume "3 \<le> length h"
    then have n: "length (take 3 ?xs) = 3" by simp
    have ne: "take 3 ?xs \<noteq> []"
    proof
      assume "take 3 ?xs = []"
      then have "length (take 3 ?xs) = 0" by (simp only: list.size)
      with n show False by simp
    qed
    show "calculateBaselineEAR h = baseline_spec h"
      unfolding calculateBaselineEAR_sum baseline_spec_def Let_def
      by (simp only: ne if_False n)
  qed
  have 3: "h = [] \<longrightarrow> calculateBaselineEAR h = 0"
    by (simp add: calculateBaselineEAR_sum)
  show ?thesis
    by (intro conjI) (rule 1, rule 2, rule 3)
qed

text \<open>
  C1: the baseline is to be the mean of the three largest samples and, below three
  samples, the average over the samples present. The component misses the second part:
  it divides by 3 also when only one or two samples were summed. For the history
  \<open>[0.75]\<close> it yields 0.25 where the average of the samples present is 0.75, and for
  \<open>[0.75, 0.45]\<close> it yields 0.4 where the average is 0.6.
\<close>

theorem baseline_below_three_samples:
  "calculateBaselineEAR [0.75] = 0.25 \<and> baseline_spec [0.75] = 0.75 \<and>
   calculateBaselineEAR [0.75] \<noteq> baseline_spec [0.75] \<and>
   calculateBaselineEAR [0.75, 0.45] = 0.4 \<and> baseline_spec [0.75, 0.45] = 0.6"
  by (simp add: calculateBaselineEAR_def baseline_spec_def)

subsection \<open>The bounded history\<close>

lemma push_shift_snoc:
  "push_shift a v = (if 10 \<le> length a then tl a @ [v] else a @ [v])"
  by (cases a) (simp_all add: push_shift_def)

lemma push_shift_twice: "\<exists>ys. push_shift (push_shift h e) e = ys @ [e, e]"
proof -
  have "\<exists>xs. push_shift h e = xs @ [e]"
    by (cases "10 \<le> length h") (simp_all add: push_shift_snoc)
  then obtain xs where xs: "push_shift h e = xs @ [e]" ..
  show ?thesis
  proof (cases "10 \<le> length (xs @ [e])")
    case True
    then have "xs \<noteq> []" by auto
    then have t: "tl (xs @ [e]) = tl xs @ [e]" by simp
    have "push_shift (xs @ [e]) e = tl (xs @ [e]) @ [e]"
      using True by (simp only: push_shift_snoc if_True)
    then have "push_shift (push_shift h e) e = tl xs @ [e, e]"
      by (simp only: xs t append_assoc append_Cons append_Nil)
    then show ?thesis ..
  next
    case False
    have "push_shift (xs @ [e]) e = (xs @ [e]) @ [e]"
      using False by (simp only: push_shift_snoc if_False)
    then have "push_shift (push_shift h e) e = xs @ [e, e]"
      by (simp only: xs append_assoc append_Cons append_Nil)
    then show ?thesis ..
  qed
qed

lemma second_last_after_two_pushes:
  "2 \<le> length (push_shift (push_shift h e) e) \<and>
   push_shift (push_shift h e) e ! (length (push_shift (push_shift h e) e) - 2) = e"
proof -
  from push_shift_twice [of h e]
  obtain ys where ys: "push_shift (push_shift h e) e = ys @ [e, e]" ..
  have "2 \<le> length (ys @ [e, e]) \<and> (ys @ [e, e]) ! (length (ys @ [e, e]) - 2) = e"
    by (simp add: nth_append)
  then show ?thesis by (simp only: ys)
qed

lemma no_falling_edge_after_two_pushes:
  "\<not> falling_edge (push_shift (push_shift h e) e) e"
proof
  let ?h = "push_shift (push_shift h e) e"
  assume "falling_edge ?h e"
  then have a: "?h ! (length ?h - 2) > calculateBaselineEAR ?h * 0.65"
    and b: "e < calculateBaselineEAR ?h * 0.65"
    by (simp_all only: falling_edge_def)
  have c: "?h ! (length ?h - 2) = e"
    by (simp only: second_last_after_two_pushes)
  from a have "calculateBaselineEAR ?h * 0.65 < e"
    by (simp only: c)
  with b show False by simp
qed

subsection \<open>Blink detection\<close>

lemma detectBlink_p0_count:
  fixes s :: state_p0
  shows "fst (detectBlink_p0 s (Some lm)) =
           blinkCount s +
             (if falling_edge (push_shift (lastEAR s) (ear_p0 lm)) (ear_p0 lm) then 1 else 0)"
    and "blinkCount (snd (detectBlink_p0 s (Some lm))) = fst (detectBlink_p0 s (Some lm))"
    and "lastEAR (snd (detectBlink_p0 s (Some lm))) = push_shift (lastEAR s) (ear_p0 lm)"
    and "lastPositions (snd (detectBlink_p0 s (Some lm))) = lastPositions s"
  by (simp_all add: detectBlink_p0_def Let_def falling_edge_def ear_p0_def)

lemma detectBlink_step:
  assumes "calculateEAR (leftEye lm) (rightEye lm) = Inr e"
  shows "detectBlink s lm =
     (Inr (blinkCount s + (if falling_edge (lastEAR s) e then 1 else 0)),
      s\<lparr>blinkCount := blinkCount s + (if falling_edge (lastEAR s) e then 1 else 0)\<rparr>)"
  using assms by (simp add: detectBlink_def Let_def falling_edge_def)

lemma detectBlink_throws:
  assumes "calculateEAR (leftEye lm) (rightEye lm) = Inl err"
  shows "detectBlink s lm = (Inl err, s)"
  using assms by (simp add: detectBlink_def)

lemma detectBlink_mono: "blinkCount s \<le> blinkCount (snd (detectBlink s lm))"
  by (cases "calculateEAR (leftEye lm) (rightEye lm)")
     (simp_all add: detectBlink_step detectBlink_throws)

subsection \<open>Head movement\<close>

lemma movement_loop_sum:
  "movement_loop ps i t = t + (\<Sum>k = i..<length ps. manhattan (ps ! (k - 1)) (ps ! k))"
proof (induction ps i t rule: movement_loop.induct)
  case (1 ps i t)
  show ?case
  proof (cases "i < length ps")
    case True
    with "1" show ?thesis
      by (simp add: sum.atLeast_Suc_lessThan manhattan_def Let_def add.assoc)
  next
    case False
    then show ?thesis by simp
  qed
qed

lemma movement_body_spec:
  assumes "nose lm = n # ns" and "ps = push_shift positions \<lparr>px = px n, py = py n\<rparr>"
  shows "movement_body positions lm =
     (Inr (if length ps < 2 then 0
           else (\<Sum>k = 1..<length ps. manhattan (ps ! (k - 1)) (ps ! k)) / real (length ps)),
      ps)"
  using assms
  by (simp add: movement_body_def Let_def movement_loop_sum del: movement_loop.simps)

lemma stationary_sum:
  assumes "\<forall>p\<in>set ps. p = c"
  shows "(\<Sum>k = 1..<length ps. manhattan (ps ! (k - 1)) (ps ! k)) = 0"
proof (rule sum.neutral, rule ballI)
  fix k assume "k \<in> {1..<length ps}"
  then have "ps ! (k - 1) = c" "ps ! k = c"
    using assms by (simp_all add: less_imp_diff_less)
  then show "manhattan (ps ! (k - 1)) (ps ! k) = 0"
    by (simp add: manhattan_def)
qed

lemma movement_body_stationary:
  assumes "nose lm = n # ns"
    and "\<forall>p\<in>set (push_shift positions \<lparr>px = px n, py = py n\<rparr>). p = c"
  shows "fst (movement_body positions lm) = Inr 0"
  using stationary_sum [OF assms(2)]
  by (simp add: movement_body_spec [OF assms(1) refl])

lemma detectMovement_frame:
  "blinkCount (snd (detectMovement s lm)) = blinkCount s"
  "lastEAR (snd (detectMovement s lm)) = lastEAR s"
  by (simp_all add: detectMovement_def case_prod_beta)

lemma detectMovement_p0_frame:
  fixes s :: state_p0
  shows "blinkCount (snd (detectMovement_p0 s lmo)) = blinkCount s"
    and "lastEAR (snd (detectMovement_p0 s lmo)) = lastEAR s"
  by (cases lmo; simp add: detectMovement_p0_def case_prod_beta)+

lemma movement_body_average:
  assumes "nose lm = n # ns"
  shows "movement_body positions lm =
     (Inr (average_movement (push_shift positions \<lparr>px = px n, py = py n\<rparr>)),
      push_shift positions \<lparr>px = px n, py = py n\<rparr>)"
  by (simp add: movement_body_spec [OF assms refl] average_movement_def)

lemma detectMovement_p0_average:
  fixes s :: state_p0
  assumes "nose lm = n # ns"
  shows "detectMovement_p0 s (Some lm) =
      (Inr (average_movement (push_shift (lastPositions s) \<lparr>px = px n, py = py n\<rparr>)),
       s\<lparr>lastPositions := push_shift (lastPositions s) \<lparr>px = px n, py = py n\<rparr>\<rparr>)"
  by (simp add: detectMovement_p0_def movement_body_average [OF assms])

text \<open>
  C8: with the nose point \<open>n\<close> pushed onto the position history (oldest entry dropped
  beyond ten), \<^verbatim>\<open>detectMovement\<close> returns 0 when the history \<open>ps\<close> then holds fewer than
  two positions, and otherwise the sum over consecutive pairs of their Manhattan
  distance divided by the length of \<open>ps\<close>; the history is left at \<open>ps\<close>. When every
  position of \<open>ps\<close> is the same point, the result is 0. Both versions agree.
\<close>

theorem detectMovement_spec:
  assumes "nose lm = n # ns"
    and "ps = push_shift (lastPositions s) \<lparr>px = px n, py = py n\<rparr>"
    and "ps' = push_shift (lastPositions s') \<lparr>px = px n, py = py n\<rparr>"
  shows "detectMovement s lm =
     (Inr (if length ps < 2 then 0
           else (\<Sum>k = 1..<length ps. manhattan (ps ! (k - 1)) (ps ! k)) / real (length ps)),
      s\<lparr>lastPositions := ps\<rparr>) \<and>
   detectMovement_p0 s' (Some lm) =
     (Inr (if length ps' < 2 then 0
           else (\<Sum>k = 1..<length ps'. manhattan (ps' ! (k - 1)) (ps' ! k)) /
                real (length ps')),
      s'\<lparr>lastPositions := ps'\<rparr>) \<and>
   ((\<forall>p\<in>set ps. p = c) \<longrightarrow> fst (detectMovement s lm) = Inr 0) \<and>
   ((\<forall>p\<in>set ps'. p = c) \<longrightarrow> fst (detectMovement_p0 s' (Some lm)) = Inr 0)"
proof -
  have a: "fst (detectMovement s lm) = fst (movement_body (lastPositions s) lm)"
    by (simp add: detectMovement_def split: prod.splits)
  have b: "fst (detectMovement_p0 s' (Some lm)) = fst (movement_body (lastPositions s') lm)"
    by (simp add: detectMovement_p0_def split: prod.splits)
  have 1: "detectMovement s lm =
     (Inr (if length ps < 2 then 0
           else (\<Sum>k = 1..<length ps. manhattan (ps ! (k - 1)) (ps ! k)) / real (length ps)),
      s\<lparr>lastPositions := ps\<rparr>)"
    by (simp add: detectMovement_def movement_body_spec [OF assms(1) assms(2)])
  have 2: "detectMovement_p0 s' (Some lm) =
     (Inr (if length ps' < 2 then 0
           else (\<Sum>k = 1..<length ps'. manhattan (ps' ! (k - 1)) (ps' ! k)) /
                real (length ps')),
      s'\<lparr>lastPositions := ps'\<rparr>)"
    by (simp add: detectMovement_p0_def movement_body_spec [OF assms(1) assms(3)])
  have 3: "(\<forall>p\<in>set ps. p = c) \<longrightarrow> fst (detectMovement s lm) = Inr 0"
    unfolding a assms(2) using movement_body_stationary [OF assms(1)] by blast
  have 4: "(\<forall>p\<in>set ps'. p = c) \<longrightarrow> fst (detectMovement_p0 s' (Some lm)) = Inr 0"
    unfolding b assms(3) using movement_body_stationary [OF assms(1)] by blast
  show ?thesis
    by (intro conjI) (rule 1, rule 2, rule 3, rule 4)
qed

theorem detectMovement_spec_witness:
  "detectMovement
     (initial_state\<lparr>lastPositions := [\<lparr>px = 3, py = 4\<rparr>, \<lparr>px = 3, py = 4\<rparr>]\<rparr>)
     \<lparr>leftEye = [], rightEye = [], nose = [\<lparr>px = 3, py = 4\<rparr>]\<rparr> =
   (Inr 0,
    initial_state
      \<lparr>lastPositions := [\<lparr>px = 3, py = 4\<rparr>, \<lparr>px = 3, py = 4\<rparr>, \<lparr>px = 3, py = 4\<rparr>]\<rparr>) \<and>
   detectMovement_p0
     (initial_state_p0\<lparr>lastPositions := [\<lparr>px = 0, py = 0\<rparr>, \<lparr>px = 1, py = 2\<rparr>]\<rparr>)
     (Some \<lparr>leftEye = [], rightEye = [], nose = [\<lparr>px = 3, py = 4\<rparr>]\<rparr>) =
   (Inr (7 / 3),
    initial_state_p0
      \<lparr>lastPositions := [\<lparr>px = 0, py = 0\<rparr>, \<lparr>px = 1, py = 2\<rparr>, \<lparr>px = 3, py = 4\<rparr>]\<rparr>)"
  using detectMovement_spec
    [of "\<lparr>leftEye = [], rightEye = [], nose = [\<lparr>px = 3, py = 4\<rparr>]\<rparr>"
        "\<lparr>px = 3, py = 4\<rparr>" "[]"
        "[\<lparr>px = 3, py = 4\<rparr>, \<lparr>px = 3, py = 4\<rparr>, \<lparr>px = 3, py = 4\<rparr>]"
        "initial_state\<lparr>lastPositions := [\<lparr>px = 3, py = 4\<rparr>, \<lparr>px = 3, py = 4\<rparr>]\<rparr>"
        "[\<lparr>px = 0, py = 0\<rparr>, \<lparr>px = 1, py = 2\<rparr>, \<lparr>px = 3, py = 4\<rparr>]"
        "initial_state_p0\<lparr>lastPositions := [\<lparr>px = 0, py = 0\<rparr>, \<lparr>px = 1, py = 2\<rparr>]\<rparr>"
        "\<lparr>px = 3, py = 4\<rparr>"]
  by (simp add: push_shift_def manhattan_def sum.atLeast_Suc_lessThan)

subsection \<open>Liveness score and guidance message\<close>

lemma expressionChange_Max:
  "expressionChange e = Max {happy e, surprised e, neutral e}"
  by (simp add: expressionChange_def max.commute max.left_commute)

lemma score_of_mono:
  "bc \<le> bc' \<Longrightarrow> mv \<le> mv' \<Longrightarrow> ec \<le> ec' \<Longrightarrow> score_of bc mv ec \<le> score_of bc' mv' ec'"
  by (simp add: score_of_def min_le_iff_disj)

text \<open>The score and the message the timer callback stores are these two functions of
  the detectors' results.\<close>

lemma updateLivenessScore_result:
  assumes "detectBlink s (landmarks d) = (Inr bc, s1)"
    and "detectMovement s1 (landmarks d) = (Inr mv, s2)"
  shows "updateLivenessScore s d currentEAR baselineEAR =
     (Inr (),
      s2\<lparr>livenessScore := score_of bc mv (expressionChange (expressions d)),
         message := guidance (score_of bc mv (expressionChange (expressions d))) bc mv\<rparr>)"
  using assms by (simp add: updateLivenessScore_def Let_def)

lemma show_nat_digit [simp]: "show_nat 0 = ''0''" "show_nat 1 = ''1''"
  by simp_all

subsection \<open>The timer callback\<close>

text \<open>
  C9: on a frame whose detection list is empty, the state after the callback is the
  state before it with the message set to the no-face message: the eye aspect ratio
  history, the position history and the blink count (and the stored score) are
  untouched. This holds in both versions.
\<close>

theorem no_face_frame:
  fixes s :: state and s' :: state_p0
  shows
  "handleVideoPlay s (Detections []) = s\<lparr>message := msg_no_face\<rparr> \<and>
   lastEAR (handleVideoPlay s (Detections [])) = lastEAR s \<and>
   lastPositions (handleVideoPlay s (Detections [])) = lastPositions s \<and>
   blinkCount (handleVideoPlay s (Detections [])) = blinkCount s \<and>
   message (handleVideoPlay s (Detections [])) = msg_no_face \<and>
   handleVideoPlay_p0 s' (Detections []) = s'\<lparr>message := msg_no_face\<rparr> \<and>
   lastEAR (handleVideoPlay_p0 s' (Detections [])) = lastEAR s' \<and>
   lastPositions (handleVideoPlay_p0 s' (Detections [])) = lastPositions s' \<and>
   blinkCount (handleVideoPlay_p0 s' (Detections [])) = blinkCount s' \<and>
   message (handleVideoPlay_p0 s' (Detections [])) = msg_no_face"
  by (simp add: handleVideoPlay_def handleVideoPlay_p0_def)

text \<open>
  A frame with a face, FaceVerification.tsx: one sample is pushed onto the history, and
  the blink count moves by the falling-edge test on the history after that push.
\<close>

lemma handleVideoPlay_face:
  assumes "calculateEAR (leftEye (landmarks d)) (rightEye (landmarks d)) = Inr e"
  shows "lastEAR (handleVideoPlay s (Detections (d # ds))) = push_shift (lastEAR s) e"
    and "blinkCount (handleVideoPlay s (Detections (d # ds))) =
           blinkCount s + (if falling_edge (push_shift (lastEAR s) e) e then 1 else 0)"
proof -
  let ?lm = "landmarks d"
  let ?s1 = "s\<lparr>lastEAR := push_shift (lastEAR s) e\<rparr>"
  let ?c = "blinkCount s + (if falling_edge (push_shift (lastEAR s) e) e then 1 else 0)"
  have b: "detectBlink ?s1 ?lm = (Inr ?c, ?s1\<lparr>blinkCount := ?c\<rparr>)"
    using detectBlink_step [OF assms, of ?s1] by simp
  show "lastEAR (handleVideoPlay s (Detections (d # ds))) = push_shift (lastEAR s) e"
    unfolding handleVideoPlay_def updateLivenessScore_def
    by (simp add: assms Let_def b case_prod_beta updateEARHistory_def detectMovement_frame
          split: sum.splits)
  show "blinkCount (handleVideoPlay s (Detections (d # ds))) = ?c"
    unfolding handleVideoPlay_def updateLivenessScore_def
    by (simp add: assms Let_def b case_prod_beta updateEARHistory_def detectMovement_frame
          split: sum.splits)
qed

lemma handleVideoPlay_blinkCount_mono: "blinkCount s \<le> blinkCount (handleVideoPlay s f)"
proof (cases f)
  case (Detections ds)
  then show ?thesis
  proof (cases ds)
    case Nil
    with Detections show ?thesis by (simp add: handleVideoPlay_def)
  next
    case (Cons d ds')
    show ?thesis
    proof (cases "calculateEAR (leftEye (landmarks d)) (rightEye (landmarks d))")
      case (Inl err)
      with Detections Cons show ?thesis by (simp add: handleVideoPlay_def)
    next
      case (Inr e)
      with Detections Cons show ?thesis by (simp add: handleVideoPlay_face)
    qed
  qed
qed (simp_all add: handleVideoPlay_def)

lemma run_blinkCount_mono: "blinkCount s \<le> blinkCount (run s fs)"
  unfolding run_def
proof (induction fs arbitrary: s)
  case Nil
  show ?case by simp
next
  case (Cons f fs)
  have "blinkCount s \<le> blinkCount (handleVideoPlay s f)"
    by (rule handleVideoPlay_blinkCount_mono)
  also have "\<dots> \<le> blinkCount (foldl handleVideoPlay (handleVideoPlay s f) fs)"
    by (rule Cons.IH)
  finally show ?case by simp
qed

lemma frame_open_eye:
  "lastEAR (handleVideoPlay s (Detections [face open_eye])) = push_shift (lastEAR s) 1.5"
  "blinkCount (handleVideoPlay s (Detections [face open_eye])) =
     blinkCount s + (if falling_edge (push_shift (lastEAR s) 1.5) 1.5 then 1 else 0)"
  using handleVideoPlay_face [of "face open_eye" "1.5" s "[]"]
  by (simp_all add: calculateEAR_open)

lemma frame_closed_eye:
  "lastEAR (handleVideoPlay s (Detections [face closed_eye])) = push_shift (lastEAR s) 0"
  "blinkCount (handleVideoPlay s (Detections [face closed_eye])) =
     blinkCount s + (if falling_edge (push_shift (lastEAR s) 0) 0 then 1 else 0)"
  using handleVideoPlay_face [of "face closed_eye" 0 s "[]"]
  by (simp_all add: calculateEAR_closed)

text \<open>
  Three open-eye frames, three closed-eye frames and an open-eye frame:
  FaceVerification.tsx counts one blink.
\<close>

lemma scenario_one_blink:
  "blinkCount (run initial_state
     [Detections [face open_eye], Detections [face open_eye], Detections [face open_eye],
      Detections [face closed_eye], Detections [face closed_eye], Detections [face closed_eye],
      Detections [face open_eye]]) = 1"
  by (simp add: run_def frame_open_eye frame_closed_eye falling_edge_def
        calculateBaselineEAR_def push_shift_def initial_state_def)

subsection \<open>The timer callback of part_000\<close>

text \<open>
  A frame with a face, part_000: the blink count is unchanged, and when \<^verbatim>\<open>drawEyes\<close>
  does not throw, the sample stands twice at the end of the history.
\<close>

lemma handleVideoPlay_p0_face:
  fixes s :: state_p0
  shows "blinkCount (handleVideoPlay_p0 s (Detections (d # ds))) = blinkCount s"
    and "drawEyes_p0 (leftEye (landmarks d)) (rightEye (landmarks d))
           (detectEyeState (ear_p0 (landmarks d))
              (calculateBaselineEAR (push_shift (lastEAR s) (ear_p0 (landmarks d))))) = Inr () \<Longrightarrow>
         lastEAR (handleVideoPlay_p0 s (Detections (d # ds))) =
           push_shift (push_shift (lastEAR s) (ear_p0 (landmarks d))) (ear_p0 (landmarks d))"
proof -
  let ?lm = "landmarks d"
  let ?e = "ear_p0 ?lm"
  let ?s1 = "s\<lparr>lastEAR := push_shift (lastEAR s) ?e\<rparr>"
  let ?b = "detectBlink_p0 ?s1 (Some ?lm)"
  have nf: "\<not> falling_edge (push_shift (lastEAR ?s1) ?e) ?e"
    using no_falling_edge_after_two_pushes [of "lastEAR s" ?e] by simp
  have b1: "blinkCount (snd ?b) = blinkCount s"
    and b2: "lastEAR (snd ?b) = push_shift (push_shift (lastEAR s) ?e) ?e"
    using nf by (simp_all add: detectBlink_p0_count)
  show "blinkCount (handleVideoPlay_p0 s (Detections (d # ds))) = blinkCount s"
    using b1 unfolding handleVideoPlay_p0_def
    by (simp add: Let_def ear_p0_def case_prod_beta detectMovement_p0_frame
          split: sum.splits)
  show "lastEAR (handleVideoPlay_p0 s (Detections (d # ds))) =
           push_shift (push_shift (lastEAR s) ?e) ?e"
    if "drawEyes_p0 (leftEye ?lm) (rightEye ?lm)
           (detectEyeState ?e (calculateBaselineEAR (push_shift (lastEAR s) ?e))) = Inr ()"
    using that b2 unfolding handleVideoPlay_p0_def
    by (simp add: Let_def ear_p0_def case_prod_beta detectMovement_p0_frame
          split: sum.splits)
qed

lemma handleVideoPlay_p0_blinkCount:
  fixes s :: state_p0
  shows "blinkCount (handleVideoPlay_p0 s f) = blinkCount s"
proof (cases f)
  case (Detections ds)
  then show ?thesis
  proof (cases ds)
    case Nil
    with Detections show ?thesis by (simp add: handleVideoPlay_p0_def)
  next
    case (Cons d ds')
    with Detections show ?thesis by (simp only: handleVideoPlay_p0_face)
  qed
qed (simp_all add: handleVideoPlay_p0_def)

lemma run_p0_blinkCount:
  fixes s :: state_p0
  shows "blinkCount (run_p0 s fs) = blinkCount s"
  unfolding run_p0_def
  by (induction fs arbitrary: s) (simp_all add: handleVideoPlay_p0_blinkCount)

text \<open>
  C10: in part_000 the blink count is 0 after any sequence of frames from the initial
  state; more generally no sequence of frames changes it. The reason: the callback has
  pushed the current eye aspect ratio before \<^verbatim>\<open>detectBlink\<close> pushes it again, so the
  second-to-last sample of the history equals the current value, and \<^verbatim>\<open>detectBlink\<close>
  called on the state the callback hands it returns the count unchanged.
\<close>

theorem blink_count_p0_never_moves:
  fixes s :: state_p0
  shows "blinkCount (run_p0 initial_state_p0 fs) = 0 \<and>
   blinkCount (run_p0 s fs) = blinkCount s \<and>
   push_shift (push_shift (lastEAR s) (ear_p0 lm)) (ear_p0 lm) !
     (length (push_shift (push_shift (lastEAR s) (ear_p0 lm)) (ear_p0 lm)) - 2) = ear_p0 lm \<and>
   fst (detectBlink_p0 (s\<lparr>lastEAR := push_shift (lastEAR s) (ear_p0 lm)\<rparr>) (Some lm)) =
     blinkCount s"
proof -
  have 1: "blinkCount (run_p0 initial_state_p0 fs) = 0"
    by (simp add: run_p0_blinkCount) (simp add: initial_state_p0_def)
  have nf: "\<not> falling_edge
      (push_shift (lastEAR (s\<lparr>lastEAR := push_shift (lastEAR s) (ear_p0 lm)\<rparr>)) (ear_p0 lm))
      (ear_p0 lm)"
    using no_falling_edge_after_two_pushes [of "lastEAR s" "ear_p0 lm"] by simp
  have 4: "fst (detectBlink_p0 (s\<lparr>lastEAR := push_shift (lastEAR s) (ear_p0 lm)\<rparr>) (Some lm)) =
     blinkCount s"
    using nf by (simp add: detectBlink_p0_count)
  show ?thesis
    by (intro conjI)
       (rule 1, rule run_p0_blinkCount, simp only: second_last_after_two_pushes, rule 4)
qed

text \<open>The frames on which FaceVerification.tsx counts one blink leave part_000 at 0.\<close>

theorem blink_count_p0_never_moves_witness:
  "blinkCount (run_p0 initial_state_p0
     [Detections [face open_eye], Detections [face open_eye], Detections [face open_eye],
      Detections [face closed_eye], Detections [face closed_eye], Detections [face closed_eye],
      Detections [face open_eye]]) = 0"
  using blink_count_p0_never_moves
    [of "[Detections [face open_eye], Detections [face open_eye], Detections [face open_eye],
          Detections [face closed_eye], Detections [face closed_eye],
          Detections [face closed_eye], Detections [face open_eye]]"
        initial_state_p0 "landmarks (face open_eye)"]
  by (simp only:)

text \<open>
  C2: one frame with a face, from the initial state. FaceVerification.tsx leaves one
  sample in the history; part_000 leaves the same sample twice, once pushed by the
  callback and once by \<^verbatim>\<open>detectBlink\<close>.
\<close>

theorem part000_pushes_twice:
  "lastEAR (handleVideoPlay_p0 initial_state_p0 (Detections [face open_eye])) = [1.5, 1.5] \<and>
   lastEAR (handleVideoPlay initial_state (Detections [face open_eye])) = [1.5]"
proof -
  have d: "drawEyes_p0 open_eye open_eye b = Inr ()" for b
    by (simp add: drawEyes_p0_def open_eye_def)
  have 1: "lastEAR (handleVideoPlay_p0 initial_state_p0 (Detections [face open_eye])) =
           [1.5, 1.5]"
    using handleVideoPlay_p0_face(2) [of "face open_eye" initial_state_p0 "[]"]
    by (simp add: d ear_p0_open push_shift_def initial_state_p0_def)
  have 2: "lastEAR (handleVideoPlay initial_state (Detections [face open_eye])) = [1.5]"
    using handleVideoPlay_face(1) [of "face open_eye" "1.5" initial_state "[]"]
    by (simp add: calculateEAR_open push_shift_def initial_state_def)
  show ?thesis by (intro conjI) (rule 1, rule 2)
qed

subsection \<open>A frame with a face, in full\<close>

text \<open>
  FaceVerification.tsx, a frame whose eyes have six points each and whose nose array is
  not empty: the state the callback leaves behind, field by field.
\<close>

lemma handleVideoPlay_face_state:
  assumes "calculateEAR (leftEye (landmarks d)) (rightEye (landmarks d)) = Inr e"
    and "nose (landmarks d) = n # ns"
  shows "handleVideoPlay s (Detections (d # ds)) =
     s\<lparr>lastEAR := push_shift (lastEAR s) e,
       blinkCount := blinkCount s + (if falling_edge (push_shift (lastEAR s) e) e then 1 else 0),
       lastPositions := push_shift (lastPositions s) \<lparr>px = px n, py = py n\<rparr>,
       livenessScore :=
         score_of (blinkCount s + (if falling_edge (push_shift (lastEAR s) e) e then 1 else 0))
           (average_movement (push_shift (lastPositions s) \<lparr>px = px n, py = py n\<rparr>))
           (expressionChange (expressions d)),
       message :=
         guidance
           (score_of (blinkCount s + (if falling_edge (push_shift (lastEAR s) e) e then 1 else 0))
              (average_movement (push_shift (lastPositions s) \<lparr>px = px n, py = py n\<rparr>))
              (expressionChange (expressions d)))
           (blinkCount s + (if falling_edge (push_shift (lastEAR s) e) e then 1 else 0))
           (average_movement (push_shift (lastPositions s) \<lparr>px = px n, py = py n\<rparr>))\<rparr>"
proof -
  let ?s1 = "s\<lparr>lastEAR := push_shift (lastEAR s) e\<rparr>"
  let ?c = "blinkCount s + (if falling_edge (push_shift (lastEAR s) e) e then 1 else 0)"
  have b: "detectBlink ?s1 (landmarks d) = (Inr ?c, ?s1\<lparr>blinkCount := ?c\<rparr>)"
    using detectBlink_step [OF assms(1), of ?s1] by simp
  have m: "detectMovement s0 (landmarks d) =
      (Inr (average_movement (push_shift (lastPositions s0) \<lparr>px = px n, py = py n\<rparr>)),
       s0\<lparr>lastPositions := push_shift (lastPositions s0) \<lparr>px = px n, py = py n\<rparr>\<rparr>)" for s0
    by (simp add: detectMovement_def movement_body_average [OF assms(2)])
  show ?thesis
    unfolding handleVideoPlay_def updateLivenessScore_def
    by (simp add: assms(1) Let_def b m updateEARHistory_def)
qed

text \<open>
  part_000, a frame on which \<^verbatim>\<open>drawEyes\<close> cannot throw and whose nose array is not
  empty: position history, score and message after the callback.
\<close>

lemma handleVideoPlay_p0_face_fields:
  fixes s :: state_p0
  assumes "4 \<le> length (leftEye (landmarks d))" and "4 \<le> length (rightEye (landmarks d))"
    and "nose (landmarks d) = n # ns"
  shows "lastPositions (handleVideoPlay_p0 s (Detections (d # ds))) =
           push_shift (lastPositions s) \<lparr>px = px n, py = py n\<rparr>"
    and "livenessScore (handleVideoPlay_p0 s (Detections (d # ds))) =
           score_of (blinkCount s)
             (average_movement (push_shift (lastPositions s) \<lparr>px = px n, py = py n\<rparr>))
             (expressionChange (expressions d))"
    and "message (handleVideoPlay_p0 s (Detections (d # ds))) =
           guidance
             (score_of (blinkCount s)
                (average_movement (push_shift (lastPositions s) \<lparr>px = px n, py = py n\<rparr>))
                (expressionChange (expressions d)))
             (blinkCount s)
             (average_movement (push_shift (lastPositions s) \<lparr>px = px n, py = py n\<rparr>))"
proof -
  let ?lm = "landmarks d"
  let ?e = "ear_p0 ?lm"
  let ?s1 = "s\<lparr>lastEAR := push_shift (lastEAR s) ?e\<rparr>"
  let ?b = "detectBlink_p0 ?s1 (Some ?lm)"
  have dr: "drawEyes_p0 (leftEye ?lm) (rightEye ?lm) c = Inr ()" for c
  proof -
    from assms(1,2) have "leftEye ?lm \<noteq> []" "rightEye ?lm \<noteq> []" by auto
    with assms(1,2) show ?thesis by (simp add: drawEyes_p0_def)
  qed
  have nf: "\<not> falling_edge (push_shift (lastEAR ?s1) ?e) ?e"
    using no_falling_edge_after_two_pushes [of "lastEAR s" ?e] by simp
  have b0: "fst ?b = blinkCount s"
    and b1: "blinkCount (snd ?b) = blinkCount s"
    and b3: "lastPositions (snd ?b) = lastPositions s"
    using nf by (simp_all add: detectBlink_p0_count)
  have m: "detectMovement_p0 (snd ?b) (Some ?lm) =
      (Inr (average_movement (push_shift (lastPositions s) \<lparr>px = px n, py = py n\<rparr>)),
       (snd ?b)\<lparr>lastPositions := push_shift (lastPositions s) \<lparr>px = px n, py = py n\<rparr>\<rparr>)"
    using detectMovement_p0_average [OF assms(3), of "snd ?b"] by (simp add: b3)
  have u: "handleVideoPlay_p0 s (Detections (d # ds)) =
      (snd ?b)\<lparr>lastPositions := push_shift (lastPositions s) \<lparr>px = px n, py = py n\<rparr>,
          livenessScore := score_of (blinkCount s)
             (average_movement (push_shift (lastPositions s) \<lparr>px = px n, py = py n\<rparr>))
             (expressionChange (expressions d)),
          message := guidance
             (score_of (blinkCount s)
                (average_movement (push_shift (lastPositions s) \<lparr>px = px n, py = py n\<rparr>))
                (expressionChange (expressions d)))
             (blinkCount s)
             (average_movement (push_shift (lastPositions s) \<lparr>px = px n, py = py n\<rparr>))\<rparr>"
    unfolding handleVideoPlay_p0_def
    using m b0 by (simp add: Let_def dr case_prod_beta ear_p0_def)
  show "lastPositions (handleVideoPlay_p0 s (Detections (d # ds))) =
           push_shift (lastPositions s) \<lparr>px = px n, py = py n\<rparr>"
    by (simp add: u)
  show "livenessScore (handleVideoPlay_p0 s (Detections (d # ds))) =
           score_of (blinkCount s)
             (average_movement (push_shift (lastPositions s) \<lparr>px = px n, py = py n\<rparr>))
             (expressionChange (expressions d))"
    by (simp add: u)
  show "message (handleVideoPlay_p0 s (Detections (d # ds))) =
           guidance
             (score_of (blinkCount s)
                (average_movement (push_shift (lastPositions s) \<lparr>px = px n, py = py n\<rparr>))
                (expressionChange (expressions d)))
             (blinkCount s)
             (average_movement (push_shift (lastPositions s) \<lparr>px = px n, py = py n\<rparr>))"
    by (simp add: u)
qed

text \<open>
  In both versions the score and the message stored by the callback are \<open>score_of\<close>
  and \<open>guidance\<close> of the blink count and the position history the callback leaves.
\<close>

lemma face_frame_score:
  fixes s :: state and s' :: state_p0
  assumes "calculateEAR (leftEye (landmarks d)) (rightEye (landmarks d)) = Inr e"
    and "nose (landmarks d) = n # ns"
  shows "livenessScore (handleVideoPlay s (Detections (d # ds))) =
           score_of (blinkCount (handleVideoPlay s (Detections (d # ds))))
             (average_movement (lastPositions (handleVideoPlay s (Detections (d # ds)))))
             (expressionChange (expressions d))"
    and "message (handleVideoPlay s (Detections (d # ds))) =
           guidance (livenessScore (handleVideoPlay s (Detections (d # ds))))
             (blinkCount (handleVideoPlay s (Detections (d # ds))))
             (average_movement (lastPositions (handleVideoPlay s (Detections (d # ds)))))"
    and "livenessScore (handleVideoPlay_p0 s' (Detections (d # ds))) =
           score_of (blinkCount (handleVideoPlay_p0 s' (Detections (d # ds))))
             (average_movement (lastPositions (handleVideoPlay_p0 s' (Detections (d # ds)))))
             (expressionChange (expressions d))"
    and "message (handleVideoPlay_p0 s' (Detections (d # ds))) =
           guidance (livenessScore (handleVideoPlay_p0 s' (Detections (d # ds))))
             (blinkCount (handleVideoPlay_p0 s' (Detections (d # ds))))
             (average_movement (lastPositions (handleVideoPlay_p0 s' (Detections (d # ds)))))"
proof -
  from calculateEAR_lengths [OF assms(1)]
  have l: "4 \<le> length (leftEye (landmarks d))" "4 \<le> length (rightEye (landmarks d))"
    by simp_all
  show "livenessScore (handleVideoPlay s (Detections (d # ds))) =
           score_of (blinkCount (handleVideoPlay s (Detections (d # ds))))
             (average_movement (lastPositions (handleVideoPlay s (Detections (d # ds)))))
             (expressionChange (expressions d))"
    by (simp add: handleVideoPlay_face_state [OF assms])
  show "message (handleVideoPlay s (Detections (d # ds))) =
           guidance (livenessScore (handleVideoPlay s (Detections (d # ds))))
             (blinkCount (handleVideoPlay s (Detections (d # ds))))
             (average_movement (lastPositions (handleVideoPlay s (Detections (d # ds)))))"
    by (simp add: handleVideoPlay_face_state [OF assms])
  show "livenessScore (handleVideoPlay_p0 s' (Detections (d # ds))) =
           score_of (blinkCount (handleVideoPlay_p0 s' (Detections (d # ds))))
             (average_movement (lastPositions (handleVideoPlay_p0 s' (Detections (d # ds)))))
             (expressionChange (expressions d))"
    by (simp add: handleVideoPlay_p0_face_fields [OF l assms(2)] handleVideoPlay_p0_blinkCount)
  show "message (handleVideoPlay_p0 s' (Detections (d # ds))) =
           guidance (livenessScore (handleVideoPlay_p0 s' (Detections (d # ds))))
             (blinkCount (handleVideoPlay_p0 s' (Detections (d # ds))))
             (average_movement (lastPositions (handleVideoPlay_p0 s' (Detections (d # ds)))))"
    by (simp add: handleVideoPlay_p0_face_fields [OF l assms(2)] handleVideoPlay_p0_blinkCount)
qed

lemma frame_ear_step:
  assumes "0 \<le> e"
  shows "lastEAR (handleVideoPlay s (frame_ear e)) = push_shift (lastEAR s) e"
    and "blinkCount (handleVideoPlay s (frame_ear e)) =
           blinkCount s + (if falling_edge (push_shift (lastEAR s) e) e then 1 else 0)"
  using handleVideoPlay_face [of "face (eye_of_ear e)" e s "[]"] assms
  by (simp_all add: frame_ear_def calculateEAR_eye_of_ear)

lemma sample_frame_step:
  assumes "0 \<le> e"
  shows "handleVideoPlay s (sample_frame e np ex) =
     s\<lparr>lastEAR := push_shift (lastEAR s) e,
       blinkCount := blinkCount s + (if falling_edge (push_shift (lastEAR s) e) e then 1 else 0),
       lastPositions := push_shift (lastPositions s) np,
       livenessScore :=
         score_of (blinkCount s + (if falling_edge (push_shift (lastEAR s) e) e then 1 else 0))
           (average_movement (push_shift (lastPositions s) np)) (expressionChange ex),
       message :=
         guidance
           (score_of (blinkCount s + (if falling_edge (push_shift (lastEAR s) e) e then 1 else 0))
              (average_movement (push_shift (lastPositions s) np)) (expressionChange ex))
           (blinkCount s + (if falling_edge (push_shift (lastEAR s) e) e then 1 else 0))
           (average_movement (push_shift (lastPositions s) np))\<rparr>"
  using handleVideoPlay_face_state [of "face_at (eye_of_ear e) np ex" e np "[]" s "[]"] assms
  by (simp add: sample_frame_def face_at_def calculateEAR_eye_of_ear point_eta)

lemma sample_frame_step_p0:
  fixes s :: state_p0
  shows "blinkCount (handleVideoPlay_p0 s (sample_frame e np ex)) = blinkCount s"
    and "lastPositions (handleVideoPlay_p0 s (sample_frame e np ex)) =
           push_shift (lastPositions s) np"
    and "livenessScore (handleVideoPlay_p0 s (sample_frame e np ex)) =
           score_of (blinkCount s) (average_movement (push_shift (lastPositions s) np))
             (expressionChange ex)"
    and "message (handleVideoPlay_p0 s (sample_frame e np ex)) =
           guidance
             (score_of (blinkCount s) (average_movement (push_shift (lastPositions s) np))
                (expressionChange ex))
             (blinkCount s) (average_movement (push_shift (lastPositions s) np))"
  using handleVideoPlay_p0_face_fields [of "face_at (eye_of_ear e) np ex" np "[]" s "[]"]
  by (simp_all add: sample_frame_def face_at_def eye_of_ear_def handleVideoPlay_p0_blinkCount
        point_eta)

lemma session_start_state:
  "blinkCount (run initial_state session_start) = 1"
  "lastEAR (run initial_state session_start) = [1.5, 1.5, 0, 1.5]"
  "lastPositions (run initial_state session_start) =
     [\<lparr>px = 0, py = 0\<rparr>, \<lparr>px = 0, py = 0\<rparr>, \<lparr>px = 0, py = 0\<rparr>, \<lparr>px = 0, py = 0\<rparr>]"
  by (simp_all add: session_start_def run_def sample_frame_step push_shift_def
        initial_state_def falling_edge_def calculateBaselineEAR_def)

lemma session_start_state_p0:
  "blinkCount (run_p0 initial_state_p0 session_start) = 0"
  "lastPositions (run_p0 initial_state_p0 session_start) =
     [\<lparr>px = 0, py = 0\<rparr>, \<lparr>px = 0, py = 0\<rparr>, \<lparr>px = 0, py = 0\<rparr>, \<lparr>px = 0, py = 0\<rparr>]"
  by (simp_all add: session_start_def run_p0_def sample_frame_step_p0 push_shift_def
        initial_state_p0_def)

lemma final_detection_facts:
  "calculateEAR (leftEye (landmarks final_detection)) (rightEye (landmarks final_detection)) =
     Inr 0"
  "nose (landmarks final_detection) = [\<lparr>px = 0.75, py = 0\<rparr>]"
  "expressions final_detection = \<lparr>happy = 0.5, surprised = 0.2, neutral = 0.3\<rparr>"
  by (simp_all add: final_detection_def face_at_def calculateEAR_eye_of_ear)

lemma final_frame_state:
  "blinkCount (handleVideoPlay (run initial_state session_start) (Detections [final_detection]))
     = 2"
  "average_movement (lastPositions
     (handleVideoPlay (run initial_state session_start) (Detections [final_detection]))) = 0.15"
  "blinkCount
     (handleVideoPlay_p0 (run_p0 initial_state_p0 session_start) (Detections [final_detection]))
     = 0"
  "average_movement (lastPositions
     (handleVideoPlay_p0 (run_p0 initial_state_p0 session_start) (Detections [final_detection])))
     = 0.15"
proof -
  have f: "Detections [final_detection] =
      sample_frame 0 \<lparr>px = 0.75, py = 0\<rparr> \<lparr>happy = 0.5, surprised = 0.2, neutral = 0.3\<rparr>"
    by (simp add: final_detection_def sample_frame_def)
  show "blinkCount
      (handleVideoPlay (run initial_state session_start) (Detections [final_detection])) = 2"
    unfolding f
    by (simp add: sample_frame_step session_start_state push_shift_def falling_edge_def
          calculateBaselineEAR_def)
  show "average_movement (lastPositions
     (handleVideoPlay (run initial_state session_start) (Detections [final_detection]))) = 0.15"
    unfolding f
    by (simp add: sample_frame_step session_start_state push_shift_def average_movement_def
          manhattan_def sum.atLeast_Suc_lessThan)
  show "blinkCount
     (handleVideoPlay_p0 (run_p0 initial_state_p0 session_start) (Detections [final_detection]))
     = 0"
    by (simp add: handleVideoPlay_p0_blinkCount session_start_state_p0)
  show "average_movement (lastPositions
     (handleVideoPlay_p0 (run_p0 initial_state_p0 session_start) (Detections [final_detection])))
     = 0.15"
    unfolding f
    by (simp add: sample_frame_step_p0 session_start_state_p0 push_shift_def
          average_movement_def manhattan_def sum.atLeast_Suc_lessThan)
qed

lemma frame_open_eye_p0:
  fixes s :: state_p0
  shows "lastEAR (handleVideoPlay_p0 s (Detections [face open_eye])) =
     push_shift (push_shift (lastEAR s) 1.5) 1.5"
proof -
  have d: "drawEyes_p0 open_eye open_eye b = Inr ()" for b
    by (simp add: drawEyes_p0_def open_eye_def)
  show ?thesis
    using handleVideoPlay_p0_face(2) [of "face open_eye" s "[]"]
    by (simp add: d ear_p0_open)
qed

subsection \<open>Score and message published by the callbacks\<close>

text \<open>
  C4: on a frame with a face, both callbacks store as liveness score
  \<open>min (blinkCount * 0.3 + movement * 2 + expressionChange * 0.3) 1\<close>, where
  \<open>blinkCount\<close> is the blink count after the frame, \<open>movement\<close> the average jitter of the
  position history after the frame and \<open>expressionChange\<close> the largest of the three
  expression probabilities. This function \<open>score_of\<close> does not decrease when the blink
  count, the movement or the expression change grows, never exceeds 1, and is exactly 1
  as soon as the weighted sum reaches 1.
\<close>

theorem liveness_score_computed:
  fixes s :: state and s' :: state_p0
  assumes "calculateEAR (leftEye (landmarks d)) (rightEye (landmarks d)) = Inr e"
    and "nose (landmarks d) = n # ns"
  shows
  "livenessScore (handleVideoPlay s (Detections (d # ds))) =
     min (real (blinkCount (handleVideoPlay s (Detections (d # ds)))) * 0.3 +
          average_movement (lastPositions (handleVideoPlay s (Detections (d # ds)))) * 2 +
          Max {happy (expressions d), surprised (expressions d), neutral (expressions d)} * 0.3)
       1 \<and>
   livenessScore (handleVideoPlay_p0 s' (Detections (d # ds))) =
     min (real (blinkCount (handleVideoPlay_p0 s' (Detections (d # ds)))) * 0.3 +
          average_movement (lastPositions (handleVideoPlay_p0 s' (Detections (d # ds)))) * 2 +
          Max {happy (expressions d), surprised (expressions d), neutral (expressions d)} * 0.3)
       1 \<and>
   score_of bc mv ec = min (real bc * 0.3 + mv * 2 + ec * 0.3) 1 \<and>
   (bc \<le> bc' \<longrightarrow> score_of bc mv ec \<le> score_of bc' mv ec) \<and>
   (mv \<le> mv' \<longrightarrow> score_of bc mv ec \<le> score_of bc mv' ec) \<and>
   (ec \<le> ec' \<longrightarrow> score_of bc mv ec \<le> score_of bc mv ec') \<and>
   score_of bc mv ec \<le> 1 \<and>
   (1 \<le> real bc * 0.3 + mv * 2 + ec * 0.3 \<longrightarrow> score_of bc mv ec = 1)"
proof -
  have 1: "livenessScore (handleVideoPlay s (Detections (d # ds))) =
     min (real (blinkCount (handleVideoPlay s (Detections (d # ds)))) * 0.3 +
          average_movement (lastPositions (handleVideoPlay s (Detections (d # ds)))) * 2 +
          Max {happy (expressions d), surprised (expressions d), neutral (expressions d)} * 0.3)
       1"
    unfolding face_frame_score(1) [OF assms] score_of_def expressionChange_Max ..
  have 2: "livenessScore (handleVideoPlay_p0 s' (Detections (d # ds))) =
     min (real (blinkCount (handleVideoPlay_p0 s' (Detections (d # ds)))) * 0.3 +
          average_movement (lastPositions (handleVideoPlay_p0 s' (Detections (d # ds)))) * 2 +
          Max {happy (expressions d), surprised (expressions d), neutral (expressions d)} * 0.3)
       1"
    unfolding face_frame_score(3) [OF assms] score_of_def expressionChange_Max ..
  have 3: "score_of bc mv ec = min (real bc * 0.3 + mv * 2 + ec * 0.3) 1"
    by (simp add: score_of_def)
  have 4: "bc \<le> bc' \<longrightarrow> score_of bc mv ec \<le> score_of bc' mv ec"
    and 5: "mv \<le> mv' \<longrightarrow> score_of bc mv ec \<le> score_of bc mv' ec"
    and 6: "ec \<le> ec' \<longrightarrow> score_of bc mv ec \<le> score_of bc mv ec'"
    by (simp_all add: score_of_mono)
  have 7: "score_of bc mv ec \<le> 1"
    and 8: "1 \<le> real bc * 0.3 + mv * 2 + ec * 0.3 \<longrightarrow> score_of bc mv ec = 1"
    by (simp_all add: score_of_def)
  show ?thesis
    by (intro conjI) (rule 1, rule 2, rule 3, rule 4, rule 5, rule 6, rule 7, rule 8)
qed

text \<open>
  The five-frame session: FaceVerification.tsx has counted two blinks and stores the
  score \<open>min (0.6 + 0.3 + 0.15) 1 = 1\<close>; part_000 has counted none and stores 0.45.
\<close>

theorem liveness_score_computed_witness:
  "livenessScore
     (handleVideoPlay (run initial_state session_start) (Detections [final_detection])) = 1 \<and>
   livenessScore
     (handleVideoPlay_p0 (run_p0 initial_state_p0 session_start) (Detections [final_detection]))
     = 0.45 \<and>
   score_of 1 0.05 0.5 \<le> score_of 2 0.05 0.5 \<and>
   score_of 2 0.05 0.5 \<le> score_of 2 0.15 0.5 \<and>
   score_of 2 0.05 0.5 \<le> score_of 2 0.05 0.9 \<and>
   score_of 40 100 1 = 1"
proof -
  note t = liveness_score_computed [OF final_detection_facts(1), of "\<lparr>px = 0.75, py = 0\<rparr>" "[]",
      OF final_detection_facts(2)]
  have 1: "livenessScore
     (handleVideoPlay (run initial_state session_start) (Detections [final_detection])) = 1"
    using t [of "run initial_state session_start" "[]" initial_state_p0 0 0 0 0 0 0]
    by (simp add: final_frame_state final_detection_facts(3))
  have 2: "livenessScore
     (handleVideoPlay_p0 (run_p0 initial_state_p0 session_start) (Detections [final_detection]))
     = 0.45"
    using t [of initial_state "[]" "run_p0 initial_state_p0 session_start" 0 0 0 0 0 0]
    by (simp add: final_frame_state final_detection_facts(3))
  have 3: "score_of 1 0.05 0.5 \<le> score_of 2 0.05 0.5"
    using t [of initial_state "[]" initial_state_p0 1 "0.05" "0.5" 2 "0.05" "0.5"] by simp
  have 4: "score_of 2 0.05 0.5 \<le> score_of 2 0.15 0.5"
    and 5: "score_of 2 0.05 0.5 \<le> score_of 2 0.05 0.9"
    using t [of initial_state "[]" initial_state_p0 2 "0.05" "0.5" 2 "0.15" "0.9"] by simp_all
  have 6: "score_of 40 100 1 = 1"
    using t [of initial_state "[]" initial_state_p0 40 100 1 40 100 1] by simp
  show ?thesis
    by (intro conjI) (rule 1, rule 2, rule 3, rule 4, rule 5, rule 6)
qed

text \<open>
  C5: on a frame with a face, the message both callbacks publish is \<open>guidance\<close> of the
  stored score, the blink count and the movement, and \<open>guidance\<close> picks the first
  matching rule. With a score above 0.7: fewer than two blinks ask for more blinks and
  report the count out of 2; otherwise a movement below 0.1 asks for head movement;
  otherwise the face is reported as verified. A score of at most 0.7 asks to position
  the face and blink. Two blinks, a movement of 0.15 and an expression change of 0.5
  give the score 1 and the verified message.
\<close>

theorem guidance_published:
  fixes s :: state and s' :: state_p0
  assumes "calculateEAR (leftEye (landmarks d)) (rightEye (landmarks d)) = Inr e"
    and "nose (landmarks d) = n # ns"
  shows
  "message (handleVideoPlay s (Detections (d # ds))) =
     guidance (livenessScore (handleVideoPlay s (Detections (d # ds))))
       (blinkCount (handleVideoPlay s (Detections (d # ds))))
       (average_movement (lastPositions (handleVideoPlay s (Detections (d # ds))))) \<and>
   message (handleVideoPlay_p0 s' (Detections (d # ds))) =
     guidance (livenessScore (handleVideoPlay_p0 s' (Detections (d # ds))))
       (blinkCount (handleVideoPlay_p0 s' (Detections (d # ds))))
       (average_movement (lastPositions (handleVideoPlay_p0 s' (Detections (d # ds))))) \<and>
   (score > 0.7 \<and> bc < 2 \<longrightarrow> guidance score bc mv = msg_blink bc) \<and>
   (score > 0.7 \<and> \<not> bc < 2 \<and> mv < 0.1 \<longrightarrow> guidance score bc mv = msg_move_head) \<and>
   (score > 0.7 \<and> \<not> bc < 2 \<and> \<not> mv < 0.1 \<longrightarrow> guidance score bc mv = msg_verified) \<and>
   (\<not> score > 0.7 \<longrightarrow> guidance score bc mv = msg_position) \<and>
   msg_blink 0 = ''Please blink naturally (0/2 blinks)'' \<and>
   msg_blink 1 = ''Please blink naturally (1/2 blinks)'' \<and>
   score_of 2 0.15 0.5 = 1 \<and>
   guidance (score_of 2 0.15 0.5) 2 0.15 = msg_verified"
proof -
  have 1: "message (handleVideoPlay s (Detections (d # ds))) =
     guidance (livenessScore (handleVideoPlay s (Detections (d # ds))))
       (blinkCount (handleVideoPlay s (Detections (d # ds))))
       (average_movement (lastPositions (handleVideoPlay s (Detections (d # ds)))))"
    by (rule face_frame_score(2) [OF assms])
  have 2: "message (handleVideoPlay_p0 s' (Detections (d # ds))) =
     guidance (livenessScore (handleVideoPlay_p0 s' (Detections (d # ds))))
       (blinkCount (handleVideoPlay_p0 s' (Detections (d # ds))))
       (average_movement (lastPositions (handleVideoPlay_p0 s' (Detections (d # ds)))))"
    by (rule face_frame_score(4) [OF assms])
  have 3: "(score > 0.7 \<and> bc < 2 \<longrightarrow> guidance score bc mv = msg_blink bc) \<and>
   (score > 0.7 \<and> \<not> bc < 2 \<and> mv < 0.1 \<longrightarrow> guidance score bc mv = msg_move_head) \<and>
   (score > 0.7 \<and> \<not> bc < 2 \<and> \<not> mv < 0.1 \<longrightarrow> guidance score bc mv = msg_verified) \<and>
   (\<not> score > 0.7 \<longrightarrow> guidance score bc mv = msg_position) \<and>
   msg_blink 0 = ''Please blink naturally (0/2 blinks)'' \<and>
   msg_blink 1 = ''Please blink naturally (1/2 blinks)'' \<and>
   score_of 2 0.15 0.5 = 1 \<and>
   guidance (score_of 2 0.15 0.5) 2 0.15 = msg_verified"
    by (simp add: guidance_def msg_blink_def score_of_def)
  show ?thesis
    by (rule conjI [OF 1 conjI [OF 2 3]])
qed

text \<open>
  The five-frame session again: two blinks, movement 0.15 and expression change 0.5 make
  FaceVerification.tsx publish the verified message; part_000, which has counted no
  blink, stays at the request to position the face.
\<close>

theorem guidance_published_witness:
  "message (handleVideoPlay (run initial_state session_start) (Detections [final_detection])) =
     ''Live face verified! Natural movements detected.'' \<and>
   message
     (handleVideoPlay_p0 (run_p0 initial_state_p0 session_start) (Detections [final_detection])) =
     ''Position your face in the box and blink naturally'' \<and>
   guidance 0.9 1 0.5 = ''Please blink naturally (1/2 blinks)'' \<and>
   guidance 0.9 2 0.05 = ''Please move your head slightly''"
proof -
  note t = guidance_published [OF final_detection_facts(1), of "\<lparr>px = 0.75, py = 0\<rparr>" "[]",
      OF final_detection_facts(2)]
  have s1: "livenessScore
     (handleVideoPlay (run initial_state session_start) (Detections [final_detection])) = 1"
    using face_frame_score(1) [OF final_detection_facts(1), of "\<lparr>px = 0.75, py = 0\<rparr>" "[]",
      OF final_detection_facts(2), of "run initial_state session_start" "[]"]
    by (simp add: final_frame_state final_detection_facts(3) score_of_def expressionChange_def)
  have s2: "livenessScore
     (handleVideoPlay_p0 (run_p0 initial_state_p0 session_start) (Detections [final_detection]))
     = 0.45"
    using face_frame_score(3) [OF final_detection_facts(1), of "\<lparr>px = 0.75, py = 0\<rparr>" "[]",
      OF final_detection_facts(2), of "run_p0 initial_state_p0 session_start" "[]"]
    by (simp add: final_frame_state final_detection_facts(3) score_of_def expressionChange_def)
  have 1: "message
      (handleVideoPlay (run initial_state session_start) (Detections [final_detection])) =
     ''Live face verified! Natural movements detected.''"
    using t [of "run initial_state session_start" "[]" initial_state_p0 1 2 "0.15"]
    by (simp add: final_frame_state s1 msg_verified_def)
  have 2: "message
     (handleVideoPlay_p0 (run_p0 initial_state_p0 session_start) (Detections [final_detection])) =
     ''Position your face in the box and blink naturally''"
    using t [of initial_state "[]" "run_p0 initial_state_p0 session_start" "0.45" 0 "0.15"]
    by (simp add: final_frame_state s2 msg_position_def)
  have 3: "guidance 0.9 1 0.5 = ''Please blink naturally (1/2 blinks)''"
    using t [of initial_state "[]" initial_state_p0 "0.9" 1 "0.5"] by simp
  have 4: "guidance 0.9 2 0.05 = ''Please move your head slightly''"
    using t [of initial_state "[]" initial_state_p0 "0.9" 2 "0.05"]
    by (simp add: msg_move_head_def)
  show ?thesis
    by (intro conjI) (rule 1, rule 2, rule 3, rule 4)
qed

subsection \<open>Blink counting\<close>

text \<open>
  C3, as far as it holds: a call of the blink detector with a landmark object never
  lowers the blink count, and raises it by exactly 1 when the history holds at least
  three samples, the second-to-last sample is above \<open>baseline * 0.65\<close> and the current
  eye aspect ratio is below it (\<open>falling_edge\<close>), and by 0 otherwise. This is a rule
  about one call: the threshold is recomputed from the ten-sample history each time.

  In FaceVerification.tsx the history is the one the timer callback has just pushed the
  current sample onto; a throwing \<^verbatim>\<open>calculateEAR\<close> leaves the state as it was. In
  part_000 \<^verbatim>\<open>detectBlink\<close> pushes the sample itself and compares on the history after its
  own push; called without a landmark object it returns 0 and touches nothing.
\<close>

theorem blink_count_call:
  fixes s :: state and s' :: state_p0
  shows
  "(calculateEAR (leftEye lm) (rightEye lm) = Inr e \<longrightarrow>
      detectBlink s lm =
        (Inr (blinkCount s + (if falling_edge (lastEAR s) e then 1 else 0)),
         s\<lparr>blinkCount := blinkCount s + (if falling_edge (lastEAR s) e then 1 else 0)\<rparr>)) \<and>
   (calculateEAR (leftEye lm) (rightEye lm) = Inl err \<longrightarrow> detectBlink s lm = (Inl err, s)) \<and>
   blinkCount s \<le> blinkCount (snd (detectBlink s lm)) \<and>
   fst (detectBlink_p0 s' (Some lm)) =
     blinkCount s' +
       (if falling_edge (push_shift (lastEAR s') (ear_p0 lm)) (ear_p0 lm) then 1 else 0) \<and>
   blinkCount (snd (detectBlink_p0 s' (Some lm))) = fst (detectBlink_p0 s' (Some lm)) \<and>
   blinkCount s' \<le> blinkCount (snd (detectBlink_p0 s' (Some lm))) \<and>
   detectBlink_p0 s' None = (0, s')"
  using detectBlink_step [of lm e s] detectBlink_throws [of lm err s] detectBlink_mono [of s lm]
  by (simp add: detectBlink_p0_count) (simp add: detectBlink_p0_def)

text \<open>
  The fourth frame of a session of three open-eye frames and a closed-eye one is
  counted; the fifth, closed again, is not. In part_000, \<^verbatim>\<open>detectBlink\<close> alone on the
  state after two open-eye frames counts a closed eye.
\<close>

theorem blink_count_call_witness:
  "fst (detectBlink
     (updateEARHistory
        (run initial_state
           [Detections [face open_eye], Detections [face open_eye], Detections [face open_eye]])
        0)
     (landmarks (face closed_eye))) = Inr 1 \<and>
   fst (detectBlink
     (updateEARHistory
        (run initial_state
           [Detections [face open_eye], Detections [face open_eye], Detections [face open_eye],
            Detections [face closed_eye]])
        0)
     (landmarks (face closed_eye))) = Inr 1 \<and>
   fst (detectBlink_p0
     (run_p0 initial_state_p0 [Detections [face open_eye], Detections [face open_eye]])
     (Some (landmarks (face closed_eye)))) = 1"
proof -
  let ?lm = "landmarks (face closed_eye)"
  let ?s3 = "run initial_state
           [Detections [face open_eye], Detections [face open_eye], Detections [face open_eye]]"
  let ?s4 = "run initial_state
           [Detections [face open_eye], Detections [face open_eye], Detections [face open_eye],
            Detections [face closed_eye]]"
  let ?p2 = "run_p0 initial_state_p0 [Detections [face open_eye], Detections [face open_eye]]"
  have c: "calculateEAR (leftEye ?lm) (rightEye ?lm) = Inr 0"
    by (simp add: calculateEAR_closed)
  have s3: "lastEAR ?s3 = [1.5, 1.5, 1.5]" "blinkCount ?s3 = 0"
    by (simp_all add: run_def frame_open_eye frame_closed_eye falling_edge_def
          calculateBaselineEAR_def push_shift_def initial_state_def)
  have s4: "lastEAR ?s4 = [1.5, 1.5, 1.5, 0]" "blinkCount ?s4 = 1"
    by (simp_all add: run_def frame_open_eye frame_closed_eye falling_edge_def
          calculateBaselineEAR_def push_shift_def initial_state_def)
  have p2: "lastEAR ?p2 = [1.5, 1.5, 1.5, 1.5]" "blinkCount ?p2 = 0"
    by (simp_all add: run_p0_blinkCount)
       (simp_all add: run_p0_def frame_open_eye_p0 push_shift_def initial_state_p0_def)
  have f1: "falling_edge [1.5, 1.5, 1.5, 0] 0"
    by (simp add: falling_edge_def calculateBaselineEAR_def)
  have f2: "\<not> falling_edge [1.5, 1.5, 1.5, 0, 0] 0"
    by (simp add: falling_edge_def calculateBaselineEAR_def)
  have f3: "falling_edge [1.5, 1.5, 1.5, 1.5, 0] 0"
    by (simp add: falling_edge_def calculateBaselineEAR_def)
  have 1: "fst (detectBlink (updateEARHistory ?s3 0) ?lm) = Inr 1"
    using blink_count_call [of ?lm 0 "updateEARHistory ?s3 0" TypeError initial_state_p0] c f1
    by (simp add: updateEARHistory_def s3 push_shift_def)
  have 2: "fst (detectBlink (updateEARHistory ?s4 0) ?lm) = Inr 1"
    using blink_count_call [of ?lm 0 "updateEARHistory ?s4 0" TypeError initial_state_p0] c f2
    by (simp add: updateEARHistory_def s4 push_shift_def)
  have 3: "fst (detectBlink_p0 ?p2 (Some ?lm)) = 1"
    using blink_count_call [of ?lm 0 initial_state TypeError ?p2] f3
    by (simp add: p2 ear_p0_closed push_shift_def)
  show ?thesis
    by (intro conjI) (rule 1, rule 2, rule 3)
qed

text \<open>
  C3 in the specification's wording, with no second count during a sustained closure,
  fails in FaceVerification.tsx. In the thirteen frames of \<open>sustained_closure\<close> the eyes
  close at the fourth frame and stay closed: each of the frames 4 to 13 is below the
  blink threshold of its own history. The closure is counted at frame 4, and counted
  again at frame 13, when the open-eye samples have left the ten-sample window and the
  threshold has sunk below the previous closed-eye sample.
\<close>

theorem sustained_closure_counted_twice:
  "blinkCount (run initial_state (take 3 sustained_closure)) = 0 \<and>
   blinkCount (run initial_state (take 4 sustained_closure)) = 1 \<and>
   blinkCount (run initial_state (take 12 sustained_closure)) = 1 \<and>
   blinkCount (run initial_state sustained_closure) = 2 \<and>
   closed_frame (lastEAR (run initial_state (take 4 sustained_closure))) \<and>
   closed_frame (lastEAR (run initial_state (take 5 sustained_closure))) \<and>
   closed_frame (lastEAR (run initial_state (take 6 sustained_closure))) \<and>
   closed_frame (lastEAR (run initial_state (take 7 sustained_closure))) \<and>
   closed_frame (lastEAR (run initial_state (take 8 sustained_closure))) \<and>
   closed_frame (lastEAR (run initial_state (take 9 sustained_closure))) \<and>
   closed_frame (lastEAR (run initial_state (take 10 sustained_closure))) \<and>
   closed_frame (lastEAR (run initial_state (take 11 sustained_closure))) \<and>
   closed_frame (lastEAR (run initial_state (take 12 sustained_closure))) \<and>
   closed_frame (lastEAR (run initial_state sustained_closure))"
  by (simp add: sustained_closure_def run_def frame_ear_step push_shift_def initial_state_def
        falling_edge_def closed_frame_def calculateBaselineEAR_def)

end
